theory Spec2Isabelle
  imports Complex_Main "HOL-Library.AList"
begin

section \<open>Helpers of \<open>utils/helpers.ts\<close>\<close>

text \<open>
  JavaScript strings are modelled as \<^typ>\<open>string\<close>, one \<^typ>\<open>char\<close> for each code unit.
  JavaScript numbers that hold identifiers, positions, line and page numbers are
  modelled as \<^typ>\<open>int\<close>.
\<close>

subsection \<open>A fragment of the DOM: \<open>document.createElement\<close> and \<open>textContent\<close>\<close>

text \<open>
  A DOM node is a text node or an element with a tag and children. The getter of
  \<open>textContent\<close> on an element concatenates the data of all text descendants in tree
  order; the setter replaces all children by one text node holding the given string
  verbatim (no markup is parsed), or by nothing when the string is empty.
\<close>

datatype dom_node = TextNode string | ElementNode string "dom_node list"

fun textContent_get :: "dom_node \<Rightarrow> string" where
  "textContent_get (TextNode s) = s"
| "textContent_get (ElementNode tag kids) = concat (map textContent_get kids)"

fun textContent_set :: "dom_node \<Rightarrow> string \<Rightarrow> dom_node" where
  "textContent_set (TextNode s) v = TextNode v"
| "textContent_set (ElementNode tag kids) v =
     ElementNode tag (if v = [] then [] else [TextNode v])"

definition createElement :: "string \<Rightarrow> dom_node" where
  "createElement tag = ElementNode tag []"

text \<open>
  \<^verbatim>\<open>
  export function stripHtml(html: string): string {
      const div = document.createElement('div');
      div.textContent = html;
      return div.textContent ?? '';
  }
  \<close>
  The getter never yields \<open>null\<close> on an element, so the \<open>??\<close> branch is dead.
\<close>

definition stripHtml :: "string \<Rightarrow> string" where
  "stripHtml html =
     (let div_el = createElement ''div'';
          div_el = textContent_set div_el html
      in textContent_get div_el)"

subsection \<open>\<open>String(n)\<close>, \<open>padNumber\<close>, \<open>Array.join\<close>\<close>

fun String_nat :: "nat \<Rightarrow> string" where
  "String_nat n =
     (if n < 10 then [''0123456789'' ! n]
      else String_nat (n div 10) @ [''0123456789'' ! (n mod 10)])"

declare String_nat.simps [simp del]

definition String_int :: "int \<Rightarrow> string" where
  "String_int i = (if i < 0 then CHR ''-'' # String_nat (nat (- i)) else String_nat (nat i))"

text \<open>
  \<^verbatim>\<open>
  export function padNumber(n: number, width: number): string {
      return String(n).padStart(width, '0');
  }
  \<close>
\<close>

definition padStart :: "string \<Rightarrow> nat \<Rightarrow> char \<Rightarrow> string" where
  "padStart s width c = replicate (width - length s) c @ s"

definition padNumber :: "int \<Rightarrow> nat \<Rightarrow> string" where
  "padNumber n width = padStart (String_int n) width CHR ''0''"

fun join :: "string \<Rightarrow> string list \<Rightarrow> string" where
  "join sep [] = []"
| "join sep [x] = x"
| "join sep (x # y # ys) = x @ sep @ join sep (y # ys)"

subsection \<open>JavaScript \<open>Map\<close> and \<open>Set\<close>\<close>

text \<open>
  A \<open>Map\<close> is an association list in insertion order with distinct keys: \<open>set\<close> replaces
  the value of a key in place, or appends a new pair (\<^const>\<open>AList.update\<close>); \<open>get\<close> is
  \<^const>\<open>map_of\<close>. A \<open>Set\<close> is a list in insertion order without repetition.
\<close>

type_synonym ('k, 'v) JsMap = "('k \<times> 'v) list"

abbreviation Map_get :: "('k, 'v) JsMap \<Rightarrow> 'k \<Rightarrow> 'v option" where
  "Map_get m k \<equiv> map_of m k"

abbreviation Map_set :: "'k \<Rightarrow> 'v \<Rightarrow> ('k, 'v) JsMap \<Rightarrow> ('k, 'v) JsMap" where
  "Map_set k v m \<equiv> AList.update k v m"

abbreviation Map_keys :: "('k, 'v) JsMap \<Rightarrow> 'k list" where
  "Map_keys m \<equiv> map fst m"

abbreviation Map_values :: "('k, 'v) JsMap \<Rightarrow> 'v list" where
  "Map_values m \<equiv> map snd m"

definition Set_add :: "'a \<Rightarrow> 'a list \<Rightarrow> 'a list" where
  "Set_add x s = (if x \<in> set s then s else s @ [x])"

definition Set_of :: "'a list \<Rightarrow> 'a list" where
  "Set_of xs = fold Set_add xs []"

section \<open>Remote Data Client (\<open>utils/quranApi.ts\<close>)\<close>

text \<open>
  The response types of the API. A field whose name is an Isabelle keyword or a constant of
  the library carries the record's name as a suffix (\<open>id\<close>, \<open>text\<close>, \<open>translations\<close>,
  \<open>name\<close>). Optional fields (\<open>translations?\<close>) and fields the code guards with \<open>??\<close>
  (\<open>text_uthmani\<close>) are options.
\<close>

record TranslatedName =
  language_name :: string
  name_TranslatedName :: string

record Chapter =
  id_Chapter :: int
  revelation_place :: string
  revelation_order :: int
  bismillah_pre :: bool
  name_simple :: string
  name_complex :: string
  name_arabic :: string
  verses_count :: int
  pages :: "int list"
  translated_name :: TranslatedName

record Translation =
  id_Translation :: int
  resource_id :: int
  text_Translation :: string

record Verse =
  id_Verse :: int
  verse_number :: int
  verse_key :: string
  chapter_id :: int
  text_uthmani :: "string option"
  page_number :: int
  juz_number :: int
  hizb_number :: int
  translations_Verse :: "Translation list option"


record Juz =
  id_Juz :: int
  juz_number :: int
  verse_mapping :: "(string \<times> string) list"
  first_verse_id :: int
  last_verse_id :: int
  verses_count :: int

datatype CharTypeName = CT_word | CT_end | CT_pause

record Word =
  id_Word :: int
  position :: int
  text_uthmani :: string
  char_type_name :: CharTypeName
  line_number :: int
  page_number :: int

record VerseWithWords = Verse +
  words :: "Word list"

record GetVersesOptions =
  translations_opt :: "int list option"
  perPage :: "int option"
  fields_opt :: "string option"

text \<open>
  Every API function builds a request, awaits \<open>requestUrl\<close> and returns one key of the
  JSON payload; it rejects with an error when the request fails. The remote side is a
  record of the answers to each request: \<open>Inl msg\<close> is a rejection whose error carries the
  message \<open>msg\<close>, \<open>Inr x\<close> a payload.
\<close>

type_synonym error = string

record Remote =
  getChapters :: "string \<Rightarrow> error + Chapter list"
  getChapter :: "int \<Rightarrow> string \<Rightarrow> error + Chapter"
  getVersesByChapter :: "int \<Rightarrow> GetVersesOptions \<Rightarrow> error + Verse list"
  getVersesByPage :: "int \<Rightarrow> GetVersesOptions \<Rightarrow> error + Verse list"
  getJuzs :: "error + Juz list"
  getVersesByPageWithWords :: "int \<Rightarrow> error + VerseWithWords list"

section \<open>Page Layout Assembler (\<open>renderers/MushafRenderer.ts\<close>)\<close>

subsection \<open>The session cache of chapter metadata\<close>

text \<open>
  The module variable \<open>chaptersCache\<close> is the state; the requests the module sends are
  logged beside it, so that "performs no fetch" can be stated.
\<close>

datatype Request = ReqChapters string | ReqVersesByPageWithWords int

record Session =
  chaptersCache :: "Chapter list option"
  fetched :: "Request list"

definition clearChaptersCache :: "Session \<Rightarrow> Session" where
  "clearChaptersCache s = s\<lparr>chaptersCache := None\<rparr>"

text \<open>
  \<^verbatim>\<open>
  export async function getCachedChapters(language: string): Promise<Chapter[]> {
      if (!chaptersCache) {
          chaptersCache = await getChapters(language);
      }
      return chaptersCache;
  }
  \<close>
  An array, also an empty one, is truthy: only \<open>null\<close> makes the test succeed. When the
  fetch rejects, the assignment does not happen.
\<close>

definition getCachedChapters ::
  "Remote \<Rightarrow> string \<Rightarrow> Session \<Rightarrow> Session \<times> (error + Chapter list)" where
  "getCachedChapters remote language s =
     (case chaptersCache s of
        None \<Rightarrow>
          (let s1 = s\<lparr>fetched := fetched s @ [ReqChapters language]\<rparr>
           in case getChapters remote language of
                Inl e \<Rightarrow> (s1, Inl e)
              | Inr cs \<Rightarrow> (s1\<lparr>chaptersCache := Some cs\<rparr>, Inr cs))
      | Some cs \<Rightarrow> (s, Inr cs))"

subsection \<open>Grouping words by line, section-start markers\<close>

text \<open>
  \<^verbatim>\<open>
  for (const verse of verses) {
      for (const word of verse.words) {
          const existing = lineMap.get(word.line_number) ?? [];
          existing.push(word);
          lineMap.set(word.line_number, existing);
      }
  }
  \<close>
\<close>

definition groupWordsByLine :: "VerseWithWords list \<Rightarrow> (int, Word list) JsMap" where
  "groupWordsByLine verses =
     fold (\<lambda>verse lineMap.
        fold (\<lambda>word lineMap.
           (let existing = (case Map_get lineMap (line_number word) of
                              Some ws \<Rightarrow> ws | None \<Rightarrow> []);
                existing = existing @ [word]
            in Map_set (line_number word) existing lineMap))
          (words verse) lineMap)
       verses []"

text \<open>
  \<^verbatim>\<open>
  for (const verse of verses) {
      if (verse.verse_number === 1 && verse.words.length > 0) {
          const firstWord = verse.words[0]!;
          map.set(firstWord.line_number, verse.chapter_id);
      }
  }
  \<close>
\<close>

definition surahStartStep :: "VerseWithWords \<Rightarrow> (int, int) JsMap \<Rightarrow> (int, int) JsMap" where
  "surahStartStep verse m =
     (if verse_number verse = 1 \<and> length (words verse) > 0
      then (let firstWord = hd (words verse)
            in Map_set (line_number firstWord) (chapter_id verse) m)
      else m)"

definition buildSurahStartLines :: "VerseWithWords list \<Rightarrow> (int, int) JsMap" where
  "buildSurahStartLines verses = fold surahStartStep verses []"

text \<open>
  \<^verbatim>\<open>
  const all = await getCachedChapters(language);
  const map = new Map<number, Chapter>();
  for (const ch of all) {
      if (chapterIds.includes(ch.id)) { map.set(ch.id, ch); }
  }
  \<close>
\<close>

definition getChaptersForIds ::
  "Remote \<Rightarrow> int list \<Rightarrow> string \<Rightarrow> Session \<Rightarrow> Session \<times> (error + (int, Chapter) JsMap)" where
  "getChaptersForIds remote chapterIds language s =
     (case getCachedChapters remote language s of
        (s1, Inl e) \<Rightarrow> (s1, Inl e)
      | (s1, Inr all_chapters) \<Rightarrow>
          (s1, Inr (fold (\<lambda>ch m. if id_Chapter ch \<in> set chapterIds
                                  then Map_set (id_Chapter ch) ch m else m)
                      all_chapters [])))"

subsection \<open>Rendering a page\<close>

text \<open>
  What the renderer creates in the DOM. Inside the page element (\<open>div.mushaf-page\<close>): a
  section header (\<open>div.mushaf-surah-header\<close> holding one span with the Arabic name), the
  invocation-phrase banner (\<open>div.mushaf-bismillah\<close>, a fixed text), a line
  (\<open>div.mushaf-line\<close> of spans \<open>mushaf-word mushaf-word-TYPE\<close> with their text) and the
  footer (\<open>div.mushaf-page-footer\<close> with the names span and the page span). Inside the
  container: the loading block, the error block, the page element.
\<close>

datatype MushafEl =
    SurahHeader string
  | Bismillah
  | MushafLine "(CharTypeName \<times> string) list"
  | PageFooter string string

datatype ContainerEl =
    QuranLoading string
  | QuranError string
  | MushafPage "MushafEl list"

text \<open>
  The body of the loop over the sorted line numbers of \<open>renderMushafPage\<close>: the elements
  one line appends to the page element.
  \<^verbatim>\<open>
  const words = lineMap.get(lineNum)!;
  const startChapterId = surahStartLines.get(lineNum);
  if (startChapterId !== undefined) {
      const chapter = chapters.get(startChapterId);
      if (chapter) {
          const headerEl = pageEl.createEl("div", { cls: "mushaf-surah-header" });
          headerEl.createEl("span", { text: chapter.name_arabic, cls: "mushaf-surah-name" });
          if (startChapterId !== 9 && startChapterId !== 1) {
              pageEl.createEl("div", { text: "...", cls: "mushaf-bismillah" });
          }
      }
  }
  const lineEl = pageEl.createEl("div", { cls: "mushaf-line" });
  for (const word of words) { ... }
  \<close>
  \<open>lineNum\<close> is a key of \<open>lineMap\<close>, so \<open>get\<close> finds it; the \<open>None\<close> branch is never taken.
\<close>

definition renderLine ::
  "(int, Word list) JsMap \<Rightarrow> (int, Chapter) JsMap \<Rightarrow> (int, int) JsMap \<Rightarrow> int \<Rightarrow> MushafEl list" where
  "renderLine lineMap chapters surahStartLines lineNum =
     (let ws = (case Map_get lineMap lineNum of Some ws \<Rightarrow> ws | None \<Rightarrow> []);
          header =
            (case Map_get surahStartLines lineNum of
               None \<Rightarrow> []
             | Some startChapterId \<Rightarrow>
                 (case Map_get chapters startChapterId of
                    None \<Rightarrow> []
                  | Some chapter \<Rightarrow>
                      SurahHeader (name_arabic chapter) #
                      (if startChapterId \<noteq> 9 \<and> startChapterId \<noteq> 1 then [Bismillah] else [])))
      in header @ [MushafLine (map (\<lambda>w. (char_type_name w, Word.text_uthmani w)) ws)])"

text \<open>
  \<open>renderMushafPage\<close>: empty the container, create the page element, walk the line numbers
  in ascending order (\<open>[...lineMap.keys()].sort((a, b) => a - b)\<close>), then the footer with
  the names of \<open>chapters.values()\<close> joined by a middle dot (code unit \<open>0xB7\<close>) and the page.
\<close>

definition renderMushafPage ::
  "ContainerEl list \<Rightarrow> int \<Rightarrow> (int, Word list) JsMap \<Rightarrow> (int, Chapter) JsMap \<Rightarrow>
     (int, int) JsMap \<Rightarrow> ContainerEl list" where
  "renderMushafPage container page lineMap chapters surahStartLines =
     (let container = [];
          lineNumbers = sort (Map_keys lineMap);
          pageEl = fold (\<lambda>lineNum pageEl.
                      pageEl @ renderLine lineMap chapters surahStartLines lineNum)
                    lineNumbers [];
          chapterNames = join ('' '' @ [CHR 0xB7] @ '' '') (map name_simple (Map_values chapters));
          footer = PageFooter chapterNames (String_int page)
      in container @ [MushafPage (pageEl @ [footer])])"

text \<open>
  \<open>fetchAndRenderPage\<close>. The result is the session, the container as it stands while the
  fetches are awaited, and the container at the end.
  \<^verbatim>\<open>
  container.empty();
  container.createEl("div", { text: "Loading...", cls: "quran-loading" });
  try {
      const verses = await getVersesByPageWithWords(page);
      const lineMap = groupWordsByLine(verses);
      const chapterIds = [...new Set(verses.map((v) => v.chapter_id))];
      const chapters = await getChaptersForIds(chapterIds, language);
      const surahStartLines = buildSurahStartLines(verses);
      renderMushafPage(container, page, lineMap, chapters, surahStartLines);
  } catch (e) {
      container.empty();
      const msg = e instanceof Error ? e.message : String(e);
      container.createEl("div", { text: `Error: ${msg}`, cls: "quran-error" });
  }
  \<close>
\<close>

definition showError :: "ContainerEl list \<Rightarrow> error \<Rightarrow> ContainerEl list" where
  "showError container msg = (let container = [] in container @ [QuranError (''Error: '' @ msg)])"

definition fetchAndRenderPage ::
  "Remote \<Rightarrow> ContainerEl list \<Rightarrow> int \<Rightarrow> string \<Rightarrow> Session \<Rightarrow>
     Session \<times> ContainerEl list \<times> ContainerEl list" where
  "fetchAndRenderPage remote container page language s =
     (let container = [];
          container = container @ [QuranLoading ''Loading...''];
          s1 = s\<lparr>fetched := fetched s @ [ReqVersesByPageWithWords page]\<rparr>
      in case getVersesByPageWithWords remote page of
           Inl e \<Rightarrow> (s1, container, showError container e)
         | Inr verses \<Rightarrow>
             (let lineMap = groupWordsByLine verses;
                  chapterIds = Set_of (map chapter_id verses)
              in case getChaptersForIds remote chapterIds language s1 of
                   (s2, Inl e) \<Rightarrow> (s2, container, showError container e)
                 | (s2, Inr chapters) \<Rightarrow>
                     (let surahStartLines = buildSurahStartLines verses
                      in (s2, container,
                          renderMushafPage container page lineMap chapters surahStartLines))))"

section \<open>Host document store and plugin settings\<close>

text \<open>
  The host's vault is a store of named entries, files with their text and folders. The
  operations the plugin calls: \<open>getAbstractFileByPath\<close> (the entry at a path, or \<open>null\<close>),
  \<open>create\<close> and \<open>createFolder\<close>, which reject when the path is taken already.
  \<open>normalizePath\<close> is the host's; it is a field of the plugin record, with the settings.
\<close>

datatype Entry = TFile string | TFolder

type_synonym Vault = "string \<rightharpoonup> Entry"

definition getAbstractFileByPath :: "Vault \<Rightarrow> string \<Rightarrow> Entry option" where
  "getAbstractFileByPath v path = v path"

definition vault_create :: "Vault \<Rightarrow> string \<Rightarrow> string \<Rightarrow> error + Vault" where
  "vault_create v path content =
     (if v path \<noteq> None then Inl ''File already exists.''
      else Inr (v(path \<mapsto> TFile content)))"

definition vault_createFolder :: "Vault \<Rightarrow> string \<Rightarrow> error + Vault" where
  "vault_createFolder v path =
     (if v path \<noteq> None then Inl ''Folder already exists.''
      else Inr (v(path \<mapsto> TFolder)))"

datatype ViewMode = VM_verse | VM_mushaf

record QuranPluginSettings =
  defaultTranslation :: int
  showArabic :: bool
  showTranslation :: bool
  fontSize :: int
  language :: string
  defaultNoteViewMode :: ViewMode
  includeMushafInGeneration :: bool

record Plugin =
  settings :: QuranPluginSettings
  normalizePath :: "string \<Rightarrow> string"

section \<open>Document Generator (\<open>generators/VaultGenerator.ts\<close>)\<close>

record VaultGeneratorOptions =
  includeTranslation :: bool
  translationId :: int
  includeMushaf :: "bool option"
  defaultViewMode :: "ViewMode option"

text \<open>
  The text of a note plays no part in where and when a note is written. The three
  builders of text (\<open>buildSurahContent\<close>, \<open>buildPageContent\<close> and the fixed text of the
  index) are taken as given.
\<close>

record Templates =
  buildSurahContent :: "Chapter \<Rightarrow> string"
  buildPageContent :: "int \<Rightarrow> Verse list \<Rightarrow> Chapter list \<Rightarrow> int \<Rightarrow> VaultGeneratorOptions \<Rightarrow> string"
  indexContent :: string

definition baseFolder :: string where
  "baseFolder = ''Quran''"

subsection \<open>The page-to-division map\<close>

text \<open>
  \<open>Math.round\<close> rounds to the nearest integer, a half upwards; \<open>Math.ceil\<close> rounds upwards.
  The numbers are reals here. The doubles of the code differ from them by less than
  \<open>10\<^sup>-\<^sup>1\<^sup>2\<close>, and \<open>j * 604 / 30\<close> is at least \<open>1/30\<close> away from every half-integer
  (lemma \<open>Math_round_stable\<close> below), so the rounded values are the same.
\<close>

definition Math_round :: "real \<Rightarrow> int" where
  "Math_round x = \<lfloor>x + 1 / 2\<rfloor>"

definition Math_ceil :: "real \<Rightarrow> int" where
  "Math_ceil x = \<lceil>x\<rceil>"

definition approxStartPage :: "Juz \<Rightarrow> int" where
  "approxStartPage juz = Math_round ((real_of_int (juz_number juz - 1) / 30) * 604) + 1"

definition approxEndPage :: "Juz \<Rightarrow> int" where
  "approxEndPage juz = Math_round ((real_of_int (juz_number juz) / 30) * 604)"

text \<open>
  \<^verbatim>\<open>
  for (let page = 1; page <= 604; page++) {
      for (const juz of juzs) {
          const approxStartPage = Math.round(((juz.juz_number - 1) / 30) * 604) + 1;
          const approxEndPage = Math.round((juz.juz_number / 30) * 604);
          if (page >= approxStartPage && page <= approxEndPage) {
              pageToJuz.set(page, juz.juz_number);
              break;
          }
      }
  }
  \<close>
\<close>

fun juzLoop :: "int \<Rightarrow> Juz list \<Rightarrow> (int, int) JsMap \<Rightarrow> (int, int) JsMap" where
  "juzLoop page [] pageToJuz = pageToJuz"
| "juzLoop page (juz # rest) pageToJuz =
     (if page \<ge> approxStartPage juz \<and> page \<le> approxEndPage juz
      then Map_set page (juz_number juz) pageToJuz
      else juzLoop page rest pageToJuz)"

definition buildJuzPageMap :: "Juz list \<Rightarrow> (int, int) JsMap" where
  "buildJuzPageMap juzs = fold (\<lambda>page pageToJuz. juzLoop page juzs pageToJuz) [1..604] []"

text \<open>\<open>const juzNumber = juzPageMap.get(page) ?? Math.ceil(page / 20);\<close>\<close>

definition pageJuzNumber :: "(int, int) JsMap \<Rightarrow> int \<Rightarrow> int" where
  "pageJuzNumber juzPageMap page =
     (case Map_get juzPageMap page of
        Some j \<Rightarrow> j
      | None \<Rightarrow> Math_ceil (real_of_int page / 20))"

subsection \<open>Writing the notes\<close>

text \<open>
  Every function returns the vault as it leaves it and, when it throws, the message of the
  error: what was written before a failure stays written. The progress notices and the
  pause after every tenth page touch neither the vault nor the control flow and are left
  out.
  \<^verbatim>\<open>
  const folders = ["Surahs", "Pages", "Juz", "Collections"];
  for (const folder of folders) {
      const path = normalizePath(`${this.baseFolder}/${folder}`);
      if (!this.plugin.app.vault.getAbstractFileByPath(path)) {
          await this.plugin.app.vault.createFolder(path);
      }
  }
  \<close>
\<close>

fun createFoldersLoop :: "Plugin \<Rightarrow> string list \<Rightarrow> Vault \<Rightarrow> Vault \<times> error option" where
  "createFoldersLoop plugin [] v = (v, None)"
| "createFoldersLoop plugin (folder # rest) v =
     (let path = normalizePath plugin (baseFolder @ ''/'' @ folder)
      in if getAbstractFileByPath v path = None
         then (case vault_createFolder v path of
                 Inl e \<Rightarrow> (v, Some e)
               | Inr v' \<Rightarrow> createFoldersLoop plugin rest v')
         else createFoldersLoop plugin rest v)"

definition createFolders :: "Plugin \<Rightarrow> Vault \<Rightarrow> Vault \<times> error option" where
  "createFolders plugin v =
     createFoldersLoop plugin [''Surahs'', ''Pages'', ''Juz'', ''Collections''] v"

text \<open>
  \<^verbatim>\<open>
  const chapters = await getChapters(this.plugin.settings.language);
  for (const chapter of chapters) {
      const fileName = `${padNumber(chapter.id, 3)} - ${chapter.name_simple}.md`;
      const path = normalizePath(`${this.baseFolder}/Surahs/${fileName}`);
      if (this.plugin.app.vault.getAbstractFileByPath(path)) continue;
      const content = this.buildSurahContent(chapter);
      await this.plugin.app.vault.create(path, content);
  }
  \<close>
\<close>

definition surahPath :: "Plugin \<Rightarrow> Chapter \<Rightarrow> string" where
  "surahPath plugin chapter =
     (let fileName = padNumber (id_Chapter chapter) 3 @ '' - '' @ name_simple chapter @ ''.md''
      in normalizePath plugin (baseFolder @ ''/Surahs/'' @ fileName))"

fun surahLoop :: "Plugin \<Rightarrow> Templates \<Rightarrow> Chapter list \<Rightarrow> Vault \<Rightarrow> Vault \<times> error option" where
  "surahLoop plugin tpl [] v = (v, None)"
| "surahLoop plugin tpl (chapter # rest) v =
     (let path = surahPath plugin chapter
      in if getAbstractFileByPath v path \<noteq> None then surahLoop plugin tpl rest v
         else (let content = buildSurahContent tpl chapter
               in case vault_create v path content of
                    Inl e \<Rightarrow> (v, Some e)
                  | Inr v' \<Rightarrow> surahLoop plugin tpl rest v'))"

definition generateSurahNotes ::
  "Plugin \<Rightarrow> Templates \<Rightarrow> Remote \<Rightarrow> Vault \<Rightarrow> Vault \<times> error option" where
  "generateSurahNotes plugin tpl remote v =
     (case getChapters remote (language (settings plugin)) of
        Inl e \<Rightarrow> (v, Some e)
      | Inr chapters \<Rightarrow> surahLoop plugin tpl chapters v)"

text \<open>
  \<^verbatim>\<open>
  for (let page = 1; page <= 604; page++) {
      const fileName = `Page ${padNumber(page, 3)}.md`;
      const path = normalizePath(`${this.baseFolder}/Pages/${fileName}`);
      if (this.plugin.app.vault.getAbstractFileByPath(path)) continue;
      const verses = await getVersesByPage(page, {
          translations: options.includeTranslation ? [options.translationId] : undefined,
          perPage: 50,
      });
      const chapterIds = [...new Set(verses.map((v) => v.chapter_id).filter((id) => id > 0))];
      const chapters = chapterIds.map((id) => chapterMap.get(id))
          .filter((c): c is Chapter => c != null);
      const juzNumber = juzPageMap.get(page) ?? Math.ceil(page / 20);
      const content = this.buildPageContent(page, verses, chapters, juzNumber, options);
      await this.plugin.app.vault.create(path, content);
      ...
  }
  \<close>
\<close>

definition pagePath :: "Plugin \<Rightarrow> int \<Rightarrow> string" where
  "pagePath plugin page =
     (let fileName = ''Page '' @ padNumber page 3 @ ''.md''
      in normalizePath plugin (baseFolder @ ''/Pages/'' @ fileName))"

definition pageVersesOptions :: "VaultGeneratorOptions \<Rightarrow> GetVersesOptions" where
  "pageVersesOptions options =
     \<lparr>translations_opt = (if includeTranslation options then Some [translationId options]
                          else None),
      perPage = Some 50, fields_opt = None\<rparr>"

definition pageContent ::
  "Templates \<Rightarrow> VaultGeneratorOptions \<Rightarrow> (int, Chapter) JsMap \<Rightarrow> (int, int) JsMap \<Rightarrow>
     int \<Rightarrow> Verse list \<Rightarrow> string" where
  "pageContent tpl options chapterMap juzPageMap page verses =
     (let chapterIds = Set_of (filter (\<lambda>i. i > 0) (map chapter_id verses));
          chapters = List.map_filter (\<lambda>i. Map_get chapterMap i) chapterIds;
          juzNumber = pageJuzNumber juzPageMap page
      in buildPageContent tpl page verses chapters juzNumber options)"

fun pageLoop ::
  "Plugin \<Rightarrow> Templates \<Rightarrow> Remote \<Rightarrow> VaultGeneratorOptions \<Rightarrow> (int, Chapter) JsMap \<Rightarrow>
     (int, int) JsMap \<Rightarrow> int list \<Rightarrow> Vault \<Rightarrow> Vault \<times> error option" where
  "pageLoop plugin tpl remote options chapterMap juzPageMap [] v = (v, None)"
| "pageLoop plugin tpl remote options chapterMap juzPageMap (page # rest) v =
     (let path = pagePath plugin page
      in if getAbstractFileByPath v path \<noteq> None
         then pageLoop plugin tpl remote options chapterMap juzPageMap rest v
         else (case getVersesByPage remote page (pageVersesOptions options) of
                 Inl e \<Rightarrow> (v, Some e)
               | Inr verses \<Rightarrow>
                   (let content = pageContent tpl options chapterMap juzPageMap page verses
                    in case vault_create v path content of
                         Inl e \<Rightarrow> (v, Some e)
                       | Inr v' \<Rightarrow>
                           pageLoop plugin tpl remote options chapterMap juzPageMap rest v')))"

definition generatePageNotes ::
  "Plugin \<Rightarrow> Templates \<Rightarrow> Remote \<Rightarrow> VaultGeneratorOptions \<Rightarrow> Vault \<Rightarrow> Vault \<times> error option" where
  "generatePageNotes plugin tpl remote options v =
     (case getChapters remote (language (settings plugin)) of
        Inl e \<Rightarrow> (v, Some e)
      | Inr allChapters \<Rightarrow>
          (let chapterMap = fold (\<lambda>ch m. Map_set (id_Chapter ch) ch m) allChapters []
           in case getJuzs remote of
                Inl e \<Rightarrow> (v, Some e)
              | Inr juzs \<Rightarrow>
                  (let juzPageMap = buildJuzPageMap juzs
                   in pageLoop plugin tpl remote options chapterMap juzPageMap [1..604] v)))"

text \<open>
  \<^verbatim>\<open>
  const path = normalizePath(`${this.baseFolder}/_Index.md`);
  if (this.plugin.app.vault.getAbstractFileByPath(path)) return;
  ...
  await this.plugin.app.vault.create(path, content);
  \<close>
\<close>

definition generateIndex :: "Plugin \<Rightarrow> Templates \<Rightarrow> Vault \<Rightarrow> Vault \<times> error option" where
  "generateIndex plugin tpl v =
     (let path = normalizePath plugin (baseFolder @ ''/_Index.md'')
      in if getAbstractFileByPath v path \<noteq> None then (v, None)
         else (case vault_create v path (indexContent tpl) of
                 Inl e \<Rightarrow> (v, Some e)
               | Inr v' \<Rightarrow> (v', None)))"

text \<open>
  \<open>generateFullVault\<close>: the four steps inside one \<open>try\<close>; the result is the vault and the
  text of the last notice.
\<close>

definition generationFailed :: "error \<Rightarrow> string" where
  "generationFailed msg = ''Vault generation failed: '' @ msg"

definition generateFullVault ::
  "Plugin \<Rightarrow> Templates \<Rightarrow> Remote \<Rightarrow> VaultGeneratorOptions \<Rightarrow> Vault \<Rightarrow> Vault \<times> string" where
  "generateFullVault plugin tpl remote options v =
     (case createFolders plugin v of
        (v1, Some e) \<Rightarrow> (v1, generationFailed e)
      | (v1, None) \<Rightarrow>
     (case generateSurahNotes plugin tpl remote v1 of
        (v2, Some e) \<Rightarrow> (v2, generationFailed e)
      | (v2, None) \<Rightarrow>
     (case generatePageNotes plugin tpl remote options v2 of
        (v3, Some e) \<Rightarrow> (v3, generationFailed e)
      | (v3, None) \<Rightarrow>
     (case generateIndex plugin tpl v3 of
        (v4, Some e) \<Rightarrow> (v4, generationFailed e)
      | (v4, None) \<Rightarrow> (v4, ''Quran vault generated successfully!'')))))"

section \<open>Collection Builder (\<open>modals/CreateCollectionModal.ts\<close>)\<close>

record VerseRange =
  surah :: int
  startVerse :: int
  endVerse :: int
  label :: "string option"

definition PRESETS :: "(string \<times> VerseRange list) list" where
  "PRESETS =
     [(''Ayatul Kursi'', [\<lparr>surah = 2, startVerse = 255, endVerse = 255, label = None\<rparr>]),
      (''Moses Story (Al-Kahf)'',
         [\<lparr>surah = 18, startVerse = 60, endVerse = 82, label = Some ''Moses & Khidr''\<rparr>]),
      (''Surah Yasin'', [\<lparr>surah = 36, startVerse = 1, endVerse = 83, label = None\<rparr>]),
      (''Surah Al-Mulk'', [\<lparr>surah = 67, startVerse = 1, endVerse = 30, label = None\<rparr>]),
      (''Last 10 Surahs'',
         map (\<lambda>i. \<lparr>surah = 105 + i, startVerse = 1, endVerse = 999, label = None\<rparr>) [0..9]),
      (''Friday Recitation'',
         [\<lparr>surah = 18, startVerse = 1, endVerse = 10, label = Some ''First 10''\<rparr>,
          \<lparr>surah = 18, startVerse = 101, endVerse = 110, label = Some ''Last 10''\<rparr>])]"

text \<open>
  The date of the day (\<open>new Date().toISOString().split("T")[0]\<close>) and \<open>JSON.stringify\<close>
  of the ranges come from the JavaScript runtime.
\<close>

record Runtime =
  today :: string
  JSON_stringify :: "VerseRange list \<Rightarrow> string"

subsection \<open>The body: one sub-heading for each range, one block for each item\<close>

text \<open>
  \<^verbatim>\<open>
  const label = range.label ?? `${range.surah}:${range.startVerse}-${range.endVerse}`;
  body += `\n## ${chapter.name_simple} (${label})\n`;
  body += `**Link:** [[${padNumber(range.surah, 3)} - ${chapter.name_simple}]]\n\n`;
  \<close>
\<close>

definition rangeLabel :: "VerseRange \<Rightarrow> string" where
  "rangeLabel rng =
     (case label rng of
        Some l \<Rightarrow> l
      | None \<Rightarrow> String_int (surah rng) @ '':'' @ String_int (startVerse rng) @ ''-'' @
                String_int (endVerse rng))"

definition rangeHeader :: "Chapter \<Rightarrow> VerseRange \<Rightarrow> string" where
  "rangeHeader chapter rng =
     ''\<newline>## '' @ name_simple chapter @ '' ('' @ rangeLabel rng @ '')\<newline>'' @
     ''**Link:** [['' @ padNumber (surah rng) 3 @ '' - '' @ name_simple chapter @
     '']]\<newline>\<newline>''"

text \<open>
  \<^verbatim>\<open>
  for (const verse of filtered) {
      if (verse.page_number) allPages.add(verse.page_number);
      body += `### ${verse.verse_key}\n\n`;
      body += `> ${verse.text_uthmani ?? ""}\n\n`;
      if (verse.translations?.[0]) {
          body += `${stripHtml(verse.translations[0].text)}\n\n`;
      }
      body += `---\n\n`;
  }
  \<close>
\<close>

definition firstTranslation :: "Verse \<Rightarrow> Translation option" where
  "firstTranslation v =
     (case translations_Verse v of
        None \<Rightarrow> None
      | Some [] \<Rightarrow> None
      | Some (t # ts) \<Rightarrow> Some t)"

definition verseBlock :: "Verse \<Rightarrow> string" where
  "verseBlock v =
     ''### '' @ verse_key v @ ''\<newline>\<newline>'' @
     ''> '' @ (case Verse.text_uthmani v of Some t \<Rightarrow> t | None \<Rightarrow> []) @ ''\<newline>\<newline>'' @
     (case firstTranslation v of
        Some t \<Rightarrow> stripHtml (text_Translation t) @ ''\<newline>\<newline>''
      | None \<Rightarrow> []) @
     ''---\<newline>\<newline>''"

definition verseStep :: "Verse \<Rightarrow> int list \<times> string \<Rightarrow> int list \<times> string" where
  "verseStep v acc =
     (case acc of (allPages, body) \<Rightarrow>
        (if Verse.page_number v \<noteq> 0 then Set_add (Verse.page_number v) allPages else allPages,
         body @ verseBlock v))"

text \<open>
  \<^verbatim>\<open>
  const maxVerse = range.endVerse === 999 ? Infinity : range.endVerse;
  const filtered = allVerses.filter(
      (v: Verse) => v.verse_number >= range.startVerse && v.verse_number <= maxVerse);
  \<close>
  \<open>None\<close> stands for \<open>Infinity\<close>.
\<close>

definition maxVerse :: "VerseRange \<Rightarrow> int option" where
  "maxVerse rng = (if endVerse rng = 999 then None else Some (endVerse rng))"

definition inVerseRange :: "VerseRange \<Rightarrow> Verse \<Rightarrow> bool" where
  "inVerseRange rng v =
     (verse_number v \<ge> startVerse rng \<and>
      (case maxVerse rng of None \<Rightarrow> True | Some m \<Rightarrow> verse_number v \<le> m))"

definition chapterVersesOptions :: "Plugin \<Rightarrow> GetVersesOptions" where
  "chapterVersesOptions plugin =
     \<lparr>translations_opt = Some [defaultTranslation (settings plugin)],
      perPage = Some 300,
      fields_opt = Some ''text_uthmani,chapter_id,page_number''\<rparr>"

text \<open>
  The loop over the ranges, with the pages seen and the body built so far. A fetch that
  rejects ends the loop with the error; the pages and the body are local variables of the
  \<open>try\<close> block and are gone then.
\<close>

fun rangesLoop ::
  "Plugin \<Rightarrow> Remote \<Rightarrow> VerseRange list \<Rightarrow> int list \<times> string \<Rightarrow> error + (int list \<times> string)" where
  "rangesLoop plugin remote [] acc = Inr acc"
| "rangesLoop plugin remote (rng # rest) acc =
     (case getChapter remote (surah rng) (language (settings plugin)) of
        Inl e \<Rightarrow> Inl e
      | Inr chapter \<Rightarrow>
          (let acc = (fst acc, snd acc @ rangeHeader chapter rng)
           in case getVersesByChapter remote (surah rng) (chapterVersesOptions plugin) of
                Inl e \<Rightarrow> Inl e
              | Inr allVerses \<Rightarrow>
                  (let filtered = filter (inVerseRange rng) allVerses;
                       acc = fold verseStep filtered acc
                   in rangesLoop plugin remote rest acc)))"

subsection \<open>The document\<close>

definition dquote :: string where
  "dquote = [CHR 0x22]"

definition collectionContent ::
  "Runtime \<Rightarrow> string \<Rightarrow> VerseRange list \<Rightarrow> int list \<Rightarrow> string \<Rightarrow> string" where
  "collectionContent rt collectionName ranges sortedPages body =
     ''---\<newline>'' @
     ''type: collection\<newline>'' @
     ''name: '' @ dquote @ collectionName @ dquote @ ''\<newline>'' @
     ''created: '' @ today rt @ ''\<newline>'' @
     ''ranges: '' @ JSON_stringify rt ranges @ ''\<newline>'' @
     ''pages: ['' @ join '', '' (map String_int sortedPages) @ '']\<newline>'' @
     ''status: '' @ dquote @ ''not_started'' @ dquote @ ''\<newline>'' @
     ''tags: [quran, collection, custom]\<newline>'' @
     ''---\<newline>'' @
     ''\<newline>'' @
     ''# '' @ collectionName @ ''\<newline>'' @
     ''\<newline>'' @
     body @ ''\<newline>'' @
     ''## Progress\<newline>'' @
     ''\<newline>'' @
     ''- [ ] Started\<newline>'' @
     ''- [ ] Completed\<newline>'' @
     ''- [ ] Memorized\<newline>'' @
     ''\<newline>'' @
     ''## Notes\<newline>'' @
     ''\<newline>''"

text \<open>
  \<open>this.collectionName.replace(/[^a-zA-Z0-9 _-]/g, "_")\<close>, then the path.
\<close>

definition safeChar :: "char \<Rightarrow> bool" where
  "safeChar c \<longleftrightarrow>
     c \<in> set (''abcdefghijklmnopqrstuvwxyz'' @ ''ABCDEFGHIJKLMNOPQRSTUVWXYZ'' @
              ''0123456789'' @ '' _-'')"

definition safeName :: "string \<Rightarrow> string" where
  "safeName collectionName = map (\<lambda>c. if safeChar c then c else CHR ''_'') collectionName"

definition collectionPath :: "Plugin \<Rightarrow> string \<Rightarrow> string" where
  "collectionPath plugin collectionName =
     (let fileName = safeName collectionName @ ''.md''
      in normalizePath plugin (''Quran/Collections/'' @ fileName))"

text \<open>
  \<open>createCollection\<close>. The result is the vault and the text of the last notice. After a
  successful \<open>create\<close> the modal closes and the new file is opened; that is not part of the
  result.
  \<^verbatim>\<open>
  if (!this.collectionName || this.ranges.length === 0) {
      new Notice("Please provide a name and at least one verse range.");
      return;
  }
  try {
      ... the loop over the ranges ...
      const sortedPages = [...allPages].sort((a, b) => a - b);
      let content = ...;
      const safeName = this.collectionName.replace(/[^a-zA-Z0-9 _-]/g, "_");
      const fileName = `${safeName}.md`;
      const path = normalizePath(`Quran/Collections/${fileName}`);
      const folderPath = normalizePath("Quran/Collections");
      if (!this.plugin.app.vault.getAbstractFileByPath(folderPath)) {
          await this.plugin.app.vault.createFolder(folderPath);
      }
      await this.plugin.app.vault.create(path, content);
      notice.hide();
      new Notice(`Collection "${this.collectionName}" created!`);
      ...
  } catch (e) {
      notice.hide();
      const msg = e instanceof Error ? e.message : String(e);
      new Notice(`Error creating collection: ${msg}`);
  }
  \<close>
\<close>

definition collectionError :: "error \<Rightarrow> string" where
  "collectionError msg = ''Error creating collection: '' @ msg"

definition createCollection ::
  "Runtime \<Rightarrow> Plugin \<Rightarrow> Remote \<Rightarrow> string \<Rightarrow> VerseRange list \<Rightarrow> Vault \<Rightarrow> Vault \<times> string" where
  "createCollection rt plugin remote collectionName ranges v =
     (if collectionName = [] \<or> length ranges = 0
      then (v, ''Please provide a name and at least one verse range.'')
      else
        (case rangesLoop plugin remote ranges ([], []) of
           Inl e \<Rightarrow> (v, collectionError e)
         | Inr (allPages, body) \<Rightarrow>
             (let sortedPages = sort allPages;
                  content = collectionContent rt collectionName ranges sortedPages body;
                  path = collectionPath plugin collectionName;
                  folderPath = normalizePath plugin ''Quran/Collections''
              in case (if getAbstractFileByPath v folderPath = None
                       then vault_createFolder v folderPath else Inr v) of
                   Inl e \<Rightarrow> (v, collectionError e)
                 | Inr v1 \<Rightarrow>
                     (case vault_create v1 path content of
                        Inl e \<Rightarrow> (v1, collectionError e)
                      | Inr v2 \<Rightarrow>
                          (v2, ''Collection '' @ dquote @ collectionName @ dquote @
                               '' created!'')))))"

section \<open>Example data\<close>

text \<open>Concrete records and a concrete remote side, used to instantiate the theorems.\<close>

definition ex_word :: "int \<Rightarrow> Word" where
  "ex_word l = \<lparr>id_Word = 1, position = 1, Word.text_uthmani = ''x'', char_type_name = CT_word,
     line_number = l, Word.page_number = 1\<rparr>"

definition ex_chapter :: "int \<Rightarrow> string \<Rightarrow> Chapter" where
  "ex_chapter i nm = \<lparr>id_Chapter = i, revelation_place = ''makkah'', revelation_order = 1,
     bismillah_pre = True, name_simple = nm, name_complex = nm, name_arabic = nm,
     Chapter.verses_count = 7, pages = [1],
     translated_name = \<lparr>language_name = ''english'', name_TranslatedName = nm\<rparr>\<rparr>"

definition ex_verse :: "int \<Rightarrow> int \<Rightarrow> int \<Rightarrow> Verse" where
  "ex_verse c n p = \<lparr>id_Verse = 0, verse_number = n,
     verse_key = String_int c @ '':'' @ String_int n, chapter_id = c,
     text_uthmani = Some ''x'', page_number = p, juz_number = 1, hizb_number = 1,
     translations_Verse = None\<rparr>"

definition ex_verse_words :: "int \<Rightarrow> int \<Rightarrow> Word list \<Rightarrow> VerseWithWords" where
  "ex_verse_words c n ws = Verse.extend (ex_verse c n 1) \<lparr>words = ws\<rparr>"

definition ex_juz :: "int \<Rightarrow> Juz" where
  "ex_juz j = \<lparr>id_Juz = j, juz_number = j, verse_mapping = [], first_verse_id = 1,
     last_verse_id = 1, Juz.verses_count = 1\<rparr>"

definition ex_remote :: Remote where
  "ex_remote = \<lparr>
     getChapters = (\<lambda>language.
        if language = ''en'' then Inr [ex_chapter 1 ''Al-Fatihah'', ex_chapter 2 ''Al-Baqarah'']
        else if language = ''ar'' then Inr [ex_chapter 1 ''al-fatiha'']
        else Inl ''Request failed, status 500''),
     getChapter = (\<lambda>i language.
        if i = 2 then Inr (ex_chapter 2 ''Al-Baqarah'')
        else if i = 18 then Inr (ex_chapter 18 ''Al-Kahf'')
        else Inl ''Request failed, status 404''),
     getVersesByChapter = (\<lambda>i options.
        if i = 2 then Inr [ex_verse 2 254 42, ex_verse 2 255 42, ex_verse 2 256 42]
        else if i = 18
        then Inr (map (\<lambda>n. ex_verse 18 n 293) [1, 2, 3, 4, 5, 6, 7, 8, 9, 10, 11, 12])
        else Inl ''Request failed, status 404''),
     getVersesByPage = (\<lambda>p options. Inr [ex_verse 1 1 p]),
     getJuzs = Inr (map ex_juz [1..30]),
     getVersesByPageWithWords = (\<lambda>p.
        if p = 1 then Inr [ex_verse_words 1 1 [ex_word 2, ex_word 3]]
        else Inl ''Request failed, status 404'')\<rparr>"

definition ex_plugin :: Plugin where
  "ex_plugin = \<lparr>
     settings = \<lparr>defaultTranslation = 20, showArabic = True, showTranslation = True,
       fontSize = 24, language = ''en'', defaultNoteViewMode = VM_verse,
       includeMushafInGeneration = True\<rparr>,
     normalizePath = (\<lambda>path. path)\<rparr>"

definition ex_runtime :: Runtime where
  "ex_runtime = \<lparr>today = ''2025-01-01'', JSON_stringify = (\<lambda>ranges. ''[]'')\<rparr>"

definition ex_templates :: Templates where
  "ex_templates = \<lparr>
     buildSurahContent = (\<lambda>chapter. ''# '' @ name_simple chapter),
     buildPageContent = (\<lambda>page verses chapters juzNumber options.
        ''# Page '' @ String_int page @ '' juz '' @ String_int juzNumber),
     indexContent = ''# Quran Index''\<rparr>"

definition ex_options :: VaultGeneratorOptions where
  "ex_options = \<lparr>includeTranslation = True, translationId = 20, includeMushaf = Some True,
     defaultViewMode = Some VM_verse\<rparr>"

definition ex_vault :: Vault where
  "ex_vault = [''Quran/Collections'' \<mapsto> TFolder,
               ''Quran/Collections/Ayatul Kursi.md'' \<mapsto> TFile ''kept'']"

section \<open>Auxiliary definitions\<close>

text \<open>Notions the statements and proofs of the next section use.\<close>

subsection \<open>Pages and divisions\<close>

text \<open>
  Page \<open>p\<close> lies in the approximate range of division \<open>j\<close> exactly when
  \<open>1208 (j - 1) + 30 < 60 p \<le> 1208 j + 30\<close>, and that \<open>j\<close> is \<open>(60 p + 1177) div 1208\<close>.
\<close>

definition inJuzRange :: "int \<Rightarrow> int \<Rightarrow> bool" where
  "inJuzRange p j \<longleftrightarrow> 1208 * (j - 1) + 30 < 60 * p \<and> 60 * p \<le> 1208 * j + 30"

definition juzOfPage :: "int \<Rightarrow> int" where
  "juzOfPage p = (60 * p + 1177) div 1208"

subsection \<open>Writing only what is missing\<close>

text \<open>
  Every loop of the generator has one shape: for each path in turn, skip it when the vault
  has an entry there, otherwise produce the entry (which may fail) and create it. A task
  is a path with what producing its entry gives.
\<close>

type_synonym Task = "string \<times> (error + Entry)"

fun writeMissing :: "Task list \<Rightarrow> Vault \<Rightarrow> Vault \<times> error option" where
  "writeMissing [] v = (v, None)"
| "writeMissing ((path, produced) # rest) v =
     (if v path \<noteq> None then writeMissing rest v
      else (case produced of
              Inl e \<Rightarrow> (v, Some e)
            | Inr entry \<Rightarrow> writeMissing rest (v(path \<mapsto> entry))))"

definition folderTasks :: "Plugin \<Rightarrow> string list \<Rightarrow> Task list" where
  "folderTasks plugin folders =
     map (\<lambda>folder. (normalizePath plugin (baseFolder @ ''/'' @ folder), Inr TFolder)) folders"

definition surahTasks :: "Plugin \<Rightarrow> Templates \<Rightarrow> Chapter list \<Rightarrow> Task list" where
  "surahTasks plugin tpl chapters =
     map (\<lambda>chapter. (surahPath plugin chapter, Inr (TFile (buildSurahContent tpl chapter))))
       chapters"

definition pageTasks ::
  "Plugin \<Rightarrow> Templates \<Rightarrow> Remote \<Rightarrow> VaultGeneratorOptions \<Rightarrow> (int, Chapter) JsMap \<Rightarrow>
     (int, int) JsMap \<Rightarrow> int list \<Rightarrow> Task list" where
  "pageTasks plugin tpl remote options chapterMap juzPageMap ps =
     map (\<lambda>page. (pagePath plugin page,
            case getVersesByPage remote page (pageVersesOptions options) of
              Inl e \<Rightarrow> Inl e
            | Inr verses \<Rightarrow>
                Inr (TFile (pageContent tpl options chapterMap juzPageMap page verses))))
       ps"

definition indexTasks :: "Plugin \<Rightarrow> Templates \<Rightarrow> Task list" where
  "indexTasks plugin tpl =
     [(normalizePath plugin (baseFolder @ ''/_Index.md''), Inr (TFile (indexContent tpl)))]"

definition generatorFolders :: "string list" where
  "generatorFolders = [''Surahs'', ''Pages'', ''Juz'', ''Collections'']"

definition allTasks ::
  "Plugin \<Rightarrow> Templates \<Rightarrow> Remote \<Rightarrow> VaultGeneratorOptions \<Rightarrow> Chapter list \<Rightarrow> Juz list \<Rightarrow> Task list" where
  "allTasks plugin tpl remote options chapters juzs =
     folderTasks plugin generatorFolders @
     surahTasks plugin tpl chapters @
     pageTasks plugin tpl remote options
       (fold (\<lambda>ch m. Map_set (id_Chapter ch) ch m) chapters []) (buildJuzPageMap juzs) [1..604] @
     indexTasks plugin tpl"

definition generationNotice :: "error option \<Rightarrow> string" where
  "generationNotice r =
     (case r of None \<Rightarrow> ''Quran vault generated successfully!'' | Some e \<Rightarrow> generationFailed e)"

subsection \<open>Lines that carry a banner\<close>

text \<open>
  The words one item adds to the line map (the inner loop of \<open>groupWordsByLine\<close>); the
  data model's unique key of the items of a page; the sections that get a banner.
\<close>

definition addWords :: "VerseWithWords \<Rightarrow> (int, Word list) JsMap \<Rightarrow> (int, Word list) JsMap" where
  "addWords verse lineMap =
     fold (\<lambda>word lineMap.
        Map_set (line_number word)
          ((case Map_get lineMap (line_number word) of Some ws \<Rightarrow> ws | None \<Rightarrow> []) @ [word])
          lineMap)
       (words verse) lineMap"

definition uniqueKeys :: "VerseWithWords list \<Rightarrow> bool" where
  "uniqueKeys verses \<longleftrightarrow>
     (\<forall>u \<in> set verses. \<forall>w \<in> set verses.
        chapter_id u = chapter_id w \<and> verse_number u = verse_number w \<longrightarrow> u = w)"

definition bannerSections :: "(int, Chapter) JsMap \<Rightarrow> (int, int) JsMap \<Rightarrow> int set" where
  "bannerSections chapters surahStartLines =
     {s. s \<noteq> 1 \<and> s \<noteq> 9 \<and> Map_get chapters s \<noteq> None \<and>
         (\<exists>l. Map_get surahStartLines l = Some s)}"

text \<open>
  A line of the line map carries a banner when it has a start marker for a section other
  than 1 and 9 whose metadata is in the lookup.
\<close>

definition bannerLine :: "(int, Chapter) JsMap \<Rightarrow> (int, int) JsMap \<Rightarrow> int \<Rightarrow> bool" where
  "bannerLine chapters surahStartLines lineNum =
     (case Map_get surahStartLines lineNum of
        None \<Rightarrow> False
      | Some s \<Rightarrow> s \<noteq> 1 \<and> s \<noteq> 9 \<and> Map_get chapters s \<noteq> None)"

definition pageChildren :: "ContainerEl list \<Rightarrow> MushafEl list" where
  "pageChildren container =
     concat (map (\<lambda>c. case c of MushafPage els \<Rightarrow> els | _ \<Rightarrow> []) container)"

subsection \<open>Failing fetches of the collection builder\<close>

text \<open>
  A fetch of the builder fails for a range with message \<open>e\<close> when the fetch of the
  section's metadata or the fetch of its items is rejected with \<open>e\<close>.
\<close>

definition fetchFails :: "Plugin \<Rightarrow> Remote \<Rightarrow> VerseRange \<Rightarrow> error \<Rightarrow> bool" where
  "fetchFails plugin remote r e \<longleftrightarrow>
     getChapter remote (surah r) (language (settings plugin)) = Inl e \<or>
     getVersesByChapter remote (surah r) (chapterVersesOptions plugin) = Inl e"

section \<open>Claims\<close>

subsection \<open>Evaluating the helpers\<close>

lemma stripHtml_id: "stripHtml html = html"
  by (simp add: stripHtml_def createElement_def)

lemma String_int_small: "String_int 1 = ''1''" "String_int 2 = ''2''"
  by (simp_all add: String_int_def String_nat.simps)

lemma String_int_examples:
  "String_int 18 = ''18''" "String_int 255 = ''255''" "String_int 5 = ''5''"
  "String_int 10 = ''10''" "String_int 15 = ''15''"
  by (simp_all add: String_int_def String_nat.simps)

subsection \<open>Stripping markup\<close>


text \<open>
  C1 (the claim fails on the code). The claim says that \<open>stripHtml\<close> returns only the text
  content of a string with markup, no tag marker remaining. The code assigns the string to
  \<open>textContent\<close> and reads \<open>textContent\<close> back, which returns the string as it was: on
  \<open><b>Hello</b> <i>world</i>\<close> every tag marker is still there.
\<close>

theorem C1_stripHtml_keeps_tags:
  "stripHtml ''<b>Hello</b> <i>world</i>'' = ''<b>Hello</b> <i>world</i>''"
  by (simp add: stripHtml_def createElement_def)

text \<open>
  So the translation text the collection builder puts into an item block is the text as
  the API sent it, markup included.
\<close>

lemma verseBlock_keeps_markup:
  "translations_Verse v = Some (t # ts) \<Longrightarrow>
   verseBlock v =
     ''### '' @ verse_key v @ ''\<newline>\<newline>'' @
     ''> '' @ (case Verse.text_uthmani v of Some x \<Rightarrow> x | None \<Rightarrow> []) @ ''\<newline>\<newline>'' @
     text_Translation t @ ''\<newline>\<newline>'' @ ''---\<newline>\<newline>''"
  by (simp add: verseBlock_def firstTranslation_def stripHtml_id)

subsection \<open>Pages and divisions\<close>

lemma le_Math_round_iff:
  "p \<le> Math_round ((real_of_int a / 30) * 604) \<longleftrightarrow> 60 * p \<le> 1208 * a + 30"
proof -
  have "p \<le> Math_round ((real_of_int a / 30) * 604) \<longleftrightarrow>
        real_of_int p \<le> (real_of_int a / 30) * 604 + 1 / 2"
    by (simp add: Math_round_def le_floor_iff)
  also have "\<dots> \<longleftrightarrow> real_of_int (60 * p) \<le> real_of_int (1208 * a + 30)"
    by (auto simp add: field_simps)
  also have "\<dots> \<longleftrightarrow> 60 * p \<le> 1208 * a + 30"
    by (simp only: of_int_le_iff)
  finally show ?thesis .
qed

lemma juz_range_iff:
  "page \<ge> approxStartPage juz \<and> page \<le> approxEndPage juz \<longleftrightarrow> inJuzRange page (juz_number juz)"
proof -
  have "page \<ge> approxStartPage juz \<longleftrightarrow>
        \<not> page \<le> Math_round ((real_of_int (juz_number juz - 1) / 30) * 604)"
    unfolding approxStartPage_def by linarith
  then show ?thesis
    unfolding approxEndPage_def le_Math_round_iff inJuzRange_def by linarith
qed

lemma div_1208_iff: "j = a div 1208 \<longleftrightarrow> 1208 * j \<le> a \<and> a < 1208 * j + (1208::int)"
proof
  assume "j = a div 1208"
  moreover have "a = 1208 * (a div 1208) + a mod 1208" by simp
  moreover have "0 \<le> a mod 1208" "a mod 1208 < 1208" by simp_all
  ultimately show "1208 * j \<le> a \<and> a < 1208 * j + 1208" by linarith
next
  assume h: "1208 * j \<le> a \<and> a < 1208 * j + 1208"
  have "a div 1208 = j"
    by (rule int_div_pos_eq [where r = "a - 1208 * j"]) (use h in simp_all)
  then show "j = a div 1208" by simp
qed

lemma inJuzRange_iff: "inJuzRange p j \<longleftrightarrow> j = juzOfPage p"
  unfolding inJuzRange_def juzOfPage_def div_1208_iff by auto

lemma juzOfPage_bounds: "1 \<le> p \<Longrightarrow> p \<le> 604 \<Longrightarrow> 1 \<le> juzOfPage p \<and> juzOfPage p \<le> 30"
proof -
  assume p: "1 \<le> p" "p \<le> 604"
  define j where "j = juzOfPage p"
  then have "inJuzRange p j" by (simp add: inJuzRange_iff)
  with p show "1 \<le> j \<and> j \<le> 30" unfolding inJuzRange_def by auto
qed

lemma juzOfPage_mono: "p \<le> q \<Longrightarrow> juzOfPage p \<le> juzOfPage q"
  unfolding juzOfPage_def by (rule zdiv_mono1) simp_all

lemma juzOfPage_onto:
  assumes "1 \<le> j" "j \<le> 30"
  shows "\<exists>p. 1 \<le> p \<and> p \<le> 604 \<and> juzOfPage p = j"
proof -
  define p where "p = Math_round ((real_of_int j / 30) * 604)"
  have up: "60 * p \<le> 1208 * j + 30"
    using le_Math_round_iff [of p j] by (simp add: p_def)
  have "\<not> p + 1 \<le> Math_round ((real_of_int j / 30) * 604)" by (simp add: p_def)
  then have low: "1208 * j + 30 < 60 * (p + 1)"
    by (simp only: le_Math_round_iff not_le)
  from up low assms have "inJuzRange p j" "1 \<le> p" "p \<le> 604"
    unfolding inJuzRange_def by auto
  then show ?thesis by (auto simp add: inJuzRange_iff)
qed

lemma map_of_juzLoop:
  "Map_get (juzLoop page juzs m) q =
     (if q = page \<and> juzOfPage page \<in> juz_number ` set juzs then Some (juzOfPage page)
      else Map_get m q)"
proof (induction juzs)
  case Nil
  then show ?case by simp
next
  case (Cons juz rest)
  show ?case
  proof (cases "inJuzRange page (juz_number juz)")
    case True
    then have "juz_number juz = juzOfPage page" by (simp add: inJuzRange_iff)
    with True show ?thesis by (simp add: juz_range_iff update_conv')
  next
    case False
    then have "juz_number juz \<noteq> juzOfPage page" by (simp add: inJuzRange_iff)
    with False Cons.IH show ?thesis by (auto simp add: juz_range_iff)
  qed
qed

lemma map_of_pages_fold:
  "Map_get (fold (\<lambda>page pageToJuz. juzLoop page juzs pageToJuz) ps m) q =
     (if q \<in> set ps \<and> juzOfPage q \<in> juz_number ` set juzs then Some (juzOfPage q)
      else Map_get m q)"
  by (induction ps arbitrary: m) (auto simp add: map_of_juzLoop)

lemma pageJuzNumber_complete:
  assumes "juz_number ` set juzs = {1..30}" "1 \<le> p" "p \<le> 604"
  shows "pageJuzNumber (buildJuzPageMap juzs) p = juzOfPage p"
proof -
  from assms juzOfPage_bounds [of p] have "juzOfPage p \<in> juz_number ` set juzs" by simp
  with assms(2,3) show ?thesis
    by (simp add: pageJuzNumber_def buildJuzPageMap_def map_of_pages_fold)
qed

lemma four_k_plus_two: "(4 * k + 2) mod 4 = (2::int)"
  by simp

lemma Math_round_stable:
  assumes "\<bar>x - (real_of_int a / 30) * 604\<bar> < 1 / 30"
  shows "Math_round x = Math_round ((real_of_int a / 30) * 604)"
proof -
  define y where "y = (real_of_int a / 30) * 604"
  define n where "n = 1208 * a + 30"
  define k where "k = n div 60"
  define r where "r = n mod 60"
  have n: "n = 60 * k + r" by (simp add: k_def r_def)
  have "n = 4 * (302 * a + 7) + 2" by (simp add: n_def)
  then have "n mod 4 = (4 * (302 * a + 7) + 2) mod 4" by (rule arg_cong)
  also have "\<dots> = 2" by (rule four_k_plus_two)
  finally have "n mod 4 = 2" .
  moreover have "r mod 4 = n mod 4" unfolding r_def by (simp add: mod_mod_cancel)
  moreover have "0 \<le> r" "r < 60" by (simp_all add: r_def)
  ultimately have "2 \<le> r \<and> r \<le> 58" by presburger
  then have r: "2 \<le> real_of_int r" "real_of_int r \<le> 58" by simp_all
  have "y + 1 / 2 = real_of_int n / 60"
    by (simp add: n_def y_def)
  also have "\<dots> = real_of_int k + real_of_int r / 60"
    by (simp add: n)
  finally have mid: "y + 1 / 2 = real_of_int k + real_of_int r / 60" .
  from assms have close: "\<bar>x - y\<bar> < 1 / 30" by (simp only: y_def)
  from close mid r have "real_of_int k \<le> x + 1 / 2" "x + 1 / 2 < real_of_int k + 1"
    by linarith+
  then have "\<lfloor>x + 1 / 2\<rfloor> = k" by (simp add: floor_unique)
  moreover from mid r have "real_of_int k \<le> y + 1 / 2" "y + 1 / 2 < real_of_int k + 1"
    by linarith+
  then have "\<lfloor>y + 1 / 2\<rfloor> = k" by (simp add: floor_unique)
  ultimately show ?thesis by (simp add: Math_round_def y_def)
qed

text \<open>
  C2. Let the list of divisions hold the numbers 1 to 30, in any order. Then for every
  page from 1 to 604 the division number the generator writes (the lookup in
  \<open>buildJuzPageMap\<close>, with the fallback \<open>Math.ceil(page / 20)\<close>) is between 1 and 30; it
  does not decrease when the page increases; and every division from 1 to 30 is the
  number of some page.
\<close>

theorem C2_page_to_juz:
  assumes "juz_number ` set juzs = {1..30}"
  shows "(\<forall>p \<in> {1..604}. 1 \<le> pageJuzNumber (buildJuzPageMap juzs) p \<and>
                          pageJuzNumber (buildJuzPageMap juzs) p \<le> 30) \<and>
         (\<forall>p \<in> {1..604}. \<forall>q \<in> {1..604}. p \<le> q \<longrightarrow>
            pageJuzNumber (buildJuzPageMap juzs) p \<le> pageJuzNumber (buildJuzPageMap juzs) q) \<and>
         (\<forall>j \<in> {1..30}. \<exists>p \<in> {1..604}. pageJuzNumber (buildJuzPageMap juzs) p = j)"
proof (intro conjI ballI impI)
  fix p :: int assume "p \<in> {1..604}"
  then show "1 \<le> pageJuzNumber (buildJuzPageMap juzs) p"
    and "pageJuzNumber (buildJuzPageMap juzs) p \<le> 30"
    using juzOfPage_bounds [of p] by (simp_all add: pageJuzNumber_complete [OF assms])
next
  fix p q :: int assume "p \<in> {1..604}" "q \<in> {1..604}" "p \<le> q"
  then show "pageJuzNumber (buildJuzPageMap juzs) p \<le> pageJuzNumber (buildJuzPageMap juzs) q"
    by (simp add: pageJuzNumber_complete [OF assms] juzOfPage_mono)
next
  fix j :: int assume "j \<in> {1..30}"
  then obtain p where "1 \<le> p" "p \<le> 604" "juzOfPage p = j"
    using juzOfPage_onto [of j] by auto
  then show "\<exists>p \<in> {1..604}. pageJuzNumber (buildJuzPageMap juzs) p = j"
    by (auto simp add: pageJuzNumber_complete [OF assms] intro!: bexI [of _ p])
qed


text \<open>The theorem at the thirty divisions of the example remote.\<close>

theorem C2_page_to_juz_witness:
  "1 \<le> pageJuzNumber (buildJuzPageMap (map ex_juz [1..30])) 1 \<and>
   pageJuzNumber (buildJuzPageMap (map ex_juz [1..30])) 604 \<le> 30 \<and>
   pageJuzNumber (buildJuzPageMap (map ex_juz [1..30])) 20 \<le>
     pageJuzNumber (buildJuzPageMap (map ex_juz [1..30])) 21"
proof -
  have "juz_number ` set (map ex_juz [1..30]) = {1..30}"
    by (simp add: image_image ex_juz_def)
  from C2_page_to_juz [OF this] show ?thesis by simp
qed

text \<open>With all thirty divisions the fallback is never used, and the number is the closed form.\<close>

lemma pageJuzNumber_examples:
  "pageJuzNumber (buildJuzPageMap (map ex_juz [1..30])) 20 = 1"
  "pageJuzNumber (buildJuzPageMap (map ex_juz [1..30])) 21 = 2"
  "pageJuzNumber (buildJuzPageMap (map ex_juz [1..30])) 604 = 30"
proof -
  have "juz_number ` set (map ex_juz [1..30]) = {1..30}"
    by (simp add: image_image ex_juz_def)
  note eq = pageJuzNumber_complete [OF this]
  show "pageJuzNumber (buildJuzPageMap (map ex_juz [1..30])) 20 = 1"
    "pageJuzNumber (buildJuzPageMap (map ex_juz [1..30])) 21 = 2"
    "pageJuzNumber (buildJuzPageMap (map ex_juz [1..30])) 604 = 30"
    by (simp_all add: eq juzOfPage_def)
qed

text \<open>
  The list of divisions matters: with no division at all every page takes the fallback,
  and the fallback of page 604 is 31.
\<close>

lemma buildJuzPageMap_no_juzs: "buildJuzPageMap [] = []"
proof -
  have "fold (\<lambda>page pageToJuz. juzLoop page [] pageToJuz) ps m = m" for ps m
    by (induction ps) simp_all
  then show ?thesis by (simp only: buildJuzPageMap_def)
qed

lemma fallback_page_604: "pageJuzNumber (buildJuzPageMap []) 604 = 31"
  by (simp add: buildJuzPageMap_no_juzs pageJuzNumber_def Math_ceil_def)

subsection \<open>Writing only what is missing\<close>

lemma writeMissing_keeps:
  "v p = Some e \<Longrightarrow> fst (writeMissing ts v) p = Some e"
proof (induction ts arbitrary: v)
  case Nil
  then show ?case by simp
next
  case (Cons t ts)
  obtain path produced where t: "t = (path, produced)" by (cases t)
  show ?case
  proof (cases "v path = None \<and> (\<exists>entry. produced = Inr entry)")
    case True
    then obtain entry where entry: "produced = Inr entry" by blast
    from True Cons.prems have "p \<noteq> path" by auto
    with Cons.prems have "(v(path \<mapsto> entry)) p = Some e" by simp
    then have "fst (writeMissing ts (v(path \<mapsto> entry))) p = Some e" by (rule Cons.IH)
    with True entry show ?thesis by (simp add: t)
  next
    case False
    with Cons.IH [of v] Cons.prems show ?thesis
      by (cases produced) (auto simp add: t)
  qed
qed

lemma writeMissing_append:
  "writeMissing (ts @ us) v =
     (case writeMissing ts v of
        (v', None) \<Rightarrow> writeMissing us v'
      | (v', Some e) \<Rightarrow> (v', Some e))"
proof (induction ts arbitrary: v)
  case Nil
  then show ?case by simp
next
  case (Cons t ts)
  obtain path produced where t: "t = (path, produced)" by (cases t)
  show ?case
    by (cases produced) (simp_all only: t append_Cons writeMissing.simps Cons.IH
        sum.case prod.case option.case if_distrib split: if_splits, simp_all)
qed

lemma writeMissing_no_error:
  "\<forall>t \<in> set ts. \<exists>entry. snd t = Inr entry \<Longrightarrow> snd (writeMissing ts v) = None"
proof (induction ts arbitrary: v)
  case Nil
  then show ?case by simp
next
  case (Cons t ts)
  obtain path produced where t: "t = (path, produced)" by (cases t)
  from Cons.prems obtain entry where entry: "produced = Inr entry" by (auto simp add: t)
  from Cons.prems have rest: "\<forall>t \<in> set ts. \<exists>entry. snd t = Inr entry" by simp
  show ?case
    using Cons.IH [OF rest, of v] Cons.IH [OF rest, of "v(path \<mapsto> entry)"]
    by (simp add: t entry del: fun_upd_apply)
qed

lemma writeMissing_again:
  "writeMissing ts (fst (writeMissing ts v)) = writeMissing ts v"
proof (induction ts arbitrary: v)
  case Nil
  then show ?case by simp
next
  case (Cons t ts)
  obtain path produced where t: "t = (path, produced)" by (cases t)
  show ?case
  proof (cases "v path")
    case (Some e)
    then have "fst (writeMissing ts v) path = Some e" by (rule writeMissing_keeps)
    with Some Cons.IH [of v] show ?thesis by (simp add: t)
  next
    case None
    show ?thesis
    proof (cases produced)
      case (Inl e)
      with None show ?thesis by (simp add: t)
    next
      case (Inr entry)
      let ?v = "v(path \<mapsto> entry)"
      have "?v path = Some entry" by simp
      then have "fst (writeMissing ts ?v) path = Some entry"
        by (rule writeMissing_keeps)
      with None Inr Cons.IH [of ?v] show ?thesis by (simp add: t del: fun_upd_apply)
    qed
  qed
qed

lemma createFoldersLoop_tasks:
  "createFoldersLoop plugin folders v = writeMissing (folderTasks plugin folders) v"
  by (induction folders arbitrary: v)
     (simp_all add: folderTasks_def getAbstractFileByPath_def vault_createFolder_def Let_def)

lemma surahLoop_tasks:
  "surahLoop plugin tpl chapters v = writeMissing (surahTasks plugin tpl chapters) v"
  by (induction chapters arbitrary: v)
     (simp_all add: surahTasks_def getAbstractFileByPath_def vault_create_def Let_def)

lemma pageLoop_tasks:
  "pageLoop plugin tpl remote options chapterMap juzPageMap ps v =
     writeMissing (pageTasks plugin tpl remote options chapterMap juzPageMap ps) v"
  by (induction ps arbitrary: v)
     (simp_all add: pageTasks_def getAbstractFileByPath_def vault_create_def Let_def
        split: sum.splits)

lemma generateIndex_tasks:
  "generateIndex plugin tpl v = writeMissing (indexTasks plugin tpl) v"
  by (simp add: generateIndex_def indexTasks_def getAbstractFileByPath_def vault_create_def
      Let_def)


lemma folderTasks_no_error: "snd (writeMissing (folderTasks plugin folders) v) = None"
  by (rule writeMissing_no_error) (auto simp add: folderTasks_def)

lemma surahTasks_no_error: "snd (writeMissing (surahTasks plugin tpl chapters) v) = None"
  by (rule writeMissing_no_error) (auto simp add: surahTasks_def)

lemma folders_surahs_no_error:
  "snd (writeMissing (folderTasks plugin folders @ surahTasks plugin tpl chapters) v) = None"
  by (rule writeMissing_no_error) (auto simp add: folderTasks_def surahTasks_def)

lemma generateFullVault_tasks:
  "generateFullVault plugin tpl remote options v =
     (case getChapters remote (language (settings plugin)) of
        Inl e \<Rightarrow> (fst (writeMissing (folderTasks plugin generatorFolders) v), generationFailed e)
      | Inr chapters \<Rightarrow>
          (case getJuzs remote of
             Inl e \<Rightarrow>
               (fst (writeMissing (folderTasks plugin generatorFolders @
                                   surahTasks plugin tpl chapters) v),
                generationFailed e)
           | Inr juzs \<Rightarrow>
               (case writeMissing (allTasks plugin tpl remote options chapters juzs) v of
                  (v', r) \<Rightarrow> (v', generationNotice r))))"
proof -
  obtain v1 where v1: "writeMissing (folderTasks plugin generatorFolders) v = (v1, None)"
    using folderTasks_no_error [of plugin generatorFolders v]
    by (cases "writeMissing (folderTasks plugin generatorFolders) v") simp
  show ?thesis
  proof (cases "getChapters remote (language (settings plugin))")
    case (Inl e)
    then show ?thesis
      by (simp add: generateFullVault_def createFolders_def createFoldersLoop_tasks
          generatorFolders_def [symmetric] v1 generateSurahNotes_def)
  next
    case chs: (Inr chapters)
    obtain v2 where v2: "writeMissing (surahTasks plugin tpl chapters) v1 = (v2, None)"
      using surahTasks_no_error [of plugin tpl chapters v1]
      by (cases "writeMissing (surahTasks plugin tpl chapters) v1") simp
    have fs: "writeMissing (folderTasks plugin generatorFolders @ surahTasks plugin tpl chapters) v
                = (v2, None)"
      by (simp add: writeMissing_append v1 v2)
    show ?thesis
    proof (cases "getJuzs remote")
      case (Inl e)
      with chs show ?thesis
        by (simp add: generateFullVault_def createFolders_def createFoldersLoop_tasks
            generatorFolders_def [symmetric] v1 generateSurahNotes_def surahLoop_tasks v2
            generatePageNotes_def fs)
    next
      case (Inr juzs)
      let ?pt = "pageTasks plugin tpl remote options
         (fold (\<lambda>ch m. Map_set (id_Chapter ch) ch m) chapters []) (buildJuzPageMap juzs) [1..604]"
      obtain v3 r3 where v3: "writeMissing ?pt v2 = (v3, r3)"
        by (cases "writeMissing ?pt v2")
      have all: "writeMissing (allTasks plugin tpl remote options chapters juzs) v =
          (case r3 of None \<Rightarrow> writeMissing (indexTasks plugin tpl) v3 | Some e \<Rightarrow> (v3, Some e))"
        unfolding allTasks_def
        by (simp add: writeMissing_append [of "folderTasks plugin generatorFolders"] v1
            writeMissing_append [of "surahTasks plugin tpl chapters"] v2
            writeMissing_append [of ?pt] v3 del: writeMissing.simps split: option.splits)
      with chs Inr show ?thesis
        by (cases r3; cases "writeMissing (indexTasks plugin tpl) v3")
           (simp_all add: generateFullVault_def createFolders_def createFoldersLoop_tasks
            generatorFolders_def [symmetric] v1 generateSurahNotes_def surahLoop_tasks v2
            generatePageNotes_def pageLoop_tasks v3 generateIndex_tasks generationNotice_def
            del: writeMissing.simps split: option.splits)
    qed
  qed
qed

lemma generateFullVault_again:
  "generateFullVault plugin tpl remote options
     (fst (generateFullVault plugin tpl remote options v)) =
   generateFullVault plugin tpl remote options v"
proof (cases "getChapters remote (language (settings plugin))")
  case (Inl e)
  then show ?thesis by (simp add: generateFullVault_tasks writeMissing_again)
next
  case chs: (Inr chapters)
  show ?thesis
  proof (cases "getJuzs remote")
    case (Inl e)
    with chs show ?thesis by (simp add: generateFullVault_tasks writeMissing_again)
  next
    case (Inr juzs)
    let ?ts = "allTasks plugin tpl remote options chapters juzs"
    obtain v' r where run: "writeMissing ?ts v = (v', r)" by (cases "writeMissing ?ts v")
    with writeMissing_again [of ?ts v] have "writeMissing ?ts v' = (v', r)" by simp
    with chs Inr run show ?thesis by (simp add: generateFullVault_tasks)
  qed
qed

lemma generateFullVault_keeps:
  assumes "v p = Some e"
  shows "fst (generateFullVault plugin tpl remote options v) p = Some e"
proof (cases "getChapters remote (language (settings plugin))")
  case (Inl msg)
  with assms show ?thesis by (simp add: generateFullVault_tasks writeMissing_keeps)
next
  case chs: (Inr chapters)
  show ?thesis
  proof (cases "getJuzs remote")
    case (Inl msg)
    with chs assms show ?thesis by (simp add: generateFullVault_tasks writeMissing_keeps)
  next
    case (Inr juzs)
    let ?ts = "allTasks plugin tpl remote options chapters juzs"
    from assms have "fst (writeMissing ?ts v) p = Some e" by (rule writeMissing_keeps)
    with chs Inr show ?thesis by (auto simp add: generateFullVault_tasks split: prod.splits)
  qed
qed

lemma createCollection_keeps:
  "v p = Some e \<Longrightarrow> fst (createCollection rt plugin remote collectionName ranges v) p = Some e"
  by (auto simp add: createCollection_def vault_create_def vault_createFolder_def
      getAbstractFileByPath_def Let_def split: sum.splits prod.splits if_splits)

lemma createCollection_existing_path:
  assumes "collectionName \<noteq> []" "ranges \<noteq> []"
    and "rangesLoop plugin remote ranges ([], []) = Inr acc"
    and "v (normalizePath plugin ''Quran/Collections'') \<noteq> None"
    and "v (collectionPath plugin collectionName) \<noteq> None"
  shows "createCollection rt plugin remote collectionName ranges v =
           (v, collectionError ''File already exists.'')"
  using assms
  by (cases acc)
     (auto simp add: createCollection_def getAbstractFileByPath_def vault_create_def Let_def)

lemma ex_rangesLoop_ok:
  "\<exists>acc. rangesLoop ex_plugin ex_remote
     [\<lparr>surah = 2, startVerse = 255, endVerse = 255, label = None\<rparr>] ([], []) = Inr acc"
  by (simp add: ex_plugin_def ex_remote_def)

text \<open>
  C3 (amended). The claim says that an existence check precedes every creation, also of a
  collection. The generator's three writers (surah notes, page notes, index) and its
  folders do check, the collection builder checks the folder only and calls \<open>create\<close>
  at the document's path unconditionally. What holds, for the same answers of the remote
  side on both runs: running \<open>generateFullVault\<close> on the vault it left gives the same
  vault and the same notice; \<open>generateFullVault\<close> leaves every entry the vault had as it
  was; and so does \<open>createCollection\<close>.
\<close>

theorem C3_generation_skips_existing:
  "generateFullVault plugin tpl remote options
      (fst (generateFullVault plugin tpl remote options v)) =
     generateFullVault plugin tpl remote options v \<and>
   (\<forall>p e. v p = Some e \<longrightarrow>
      fst (generateFullVault plugin tpl remote options v) p = Some e) \<and>
   (\<forall>p e. v p = Some e \<longrightarrow>
      fst (createCollection rt plugin remote collectionName ranges v) p = Some e)"
  by (simp add: generateFullVault_again generateFullVault_keeps createCollection_keeps)


text \<open>
  The theorem at the example vault, which holds a collection document already: both the
  generator and the collection builder leave its text as it was.
\<close>

theorem C3_generation_witness:
  "generateFullVault ex_plugin ex_templates ex_remote ex_options
      (fst (generateFullVault ex_plugin ex_templates ex_remote ex_options ex_vault)) =
     generateFullVault ex_plugin ex_templates ex_remote ex_options ex_vault \<and>
   fst (generateFullVault ex_plugin ex_templates ex_remote ex_options ex_vault)
      ''Quran/Collections/Ayatul Kursi.md'' = Some (TFile ''kept'') \<and>
   fst (createCollection ex_runtime ex_plugin ex_remote ''Ayatul Kursi''
          [\<lparr>surah = 2, startVerse = 255, endVerse = 255, label = None\<rparr>] ex_vault)
      ''Quran/Collections/Ayatul Kursi.md'' = Some (TFile ''kept'')"
  using C3_generation_skips_existing [of ex_plugin ex_templates ex_remote ex_options ex_vault
      ex_runtime "''Ayatul Kursi''" "[\<lparr>surah = 2, startVerse = 255, endVerse = 255, label = None\<rparr>]"]
  by (simp add: ex_vault_def)

text \<open>
  The claim as stated fails for the collection builder: at a path where a document exists
  no check skips the creation; \<open>create\<close> is called, the store rejects it, and the run
  ends with the error notice.
\<close>

theorem C3_collection_counterexample:
  "ex_vault ''Quran/Collections/Ayatul Kursi.md'' = Some (TFile ''kept'') \<and>
   collectionPath ex_plugin ''Ayatul Kursi'' = ''Quran/Collections/Ayatul Kursi.md'' \<and>
   createCollection ex_runtime ex_plugin ex_remote ''Ayatul Kursi''
      [\<lparr>surah = 2, startVerse = 255, endVerse = 255, label = None\<rparr>] ex_vault =
     (ex_vault, ''Error creating collection: File already exists.'')"
proof -
  have path: "collectionPath ex_plugin ''Ayatul Kursi'' = ''Quran/Collections/Ayatul Kursi.md''"
    by (simp add: collectionPath_def safeName_def safeChar_def ex_plugin_def)
  obtain acc where "rangesLoop ex_plugin ex_remote
     [\<lparr>surah = 2, startVerse = 255, endVerse = 255, label = None\<rparr>] ([], []) = Inr acc"
    using ex_rangesLoop_ok by blast
  then have "createCollection ex_runtime ex_plugin ex_remote ''Ayatul Kursi''
      [\<lparr>surah = 2, startVerse = 255, endVerse = 255, label = None\<rparr>] ex_vault =
     (ex_vault, collectionError ''File already exists.'')"
    by (rule createCollection_existing_path [rotated 2])
       (simp_all add: path, simp_all add: ex_vault_def ex_plugin_def)
  then show ?thesis by (simp add: path collectionError_def) (simp add: ex_vault_def)
qed

subsection \<open>Section-start markers\<close>

lemma surahStart_fold_other:
  "\<forall>u \<in> set post. \<not> (verse_number u = 1 \<and> words u \<noteq> [] \<and> line_number (hd (words u)) = l)
   \<Longrightarrow> Map_get (fold surahStartStep post m) l = Map_get m l"
  by (induction post arbitrary: m) (auto simp add: surahStartStep_def update_conv')

lemma surahStart_fold_origin:
  "Map_get (fold surahStartStep vs m) l = Some s \<Longrightarrow>
     Map_get m l = Some s \<or>
     (\<exists>u \<in> set vs. verse_number u = 1 \<and> words u \<noteq> [] \<and>
        line_number (hd (words u)) = l \<and> chapter_id u = s)"
proof (induction vs arbitrary: m)
  case Nil
  then show ?case by simp
next
  case (Cons v vs)
  from Cons.prems have "Map_get (fold surahStartStep vs (surahStartStep v m)) l = Some s"
    by simp
  from Cons.IH [OF this] show ?case
    by (auto simp add: surahStartStep_def update_conv' split: if_splits)
qed

text \<open>
  C4 (amended). Let the items of a page be \<open>pre @ v # post\<close>, where \<open>v\<close> is the only item of
  section \<open>s\<close> with position 1 and has at least one word. The claim says that the marker at
  the line of \<open>v\<close>'s first word is \<open>s\<close>, and that \<open>s\<close> is marked at no other line. The
  markers are a map from line to section, so a later first item of another section whose
  first word is on the same line replaces the marker. Provided no item after \<open>v\<close> with
  position 1 and at least one word has its first word on that line,
  \<open>buildSurahStartLines\<close> maps the line of \<open>v\<close>'s first word to \<open>s\<close>, and maps no other line
  to \<open>s\<close>.
\<close>

theorem C4_marker_at_first_word_line:
  assumes split: "verses = pre @ v # post"
    and first: "verse_number v = 1" "chapter_id v = s" "words v \<noteq> []"
    and only: "\<forall>u \<in> set pre \<union> set post. \<not> (verse_number u = 1 \<and> chapter_id u = s)"
    and later: "\<forall>u \<in> set post. \<not> (verse_number u = 1 \<and> words u \<noteq> [] \<and>
                  line_number (hd (words u)) = line_number (hd (words v)))"
  shows "Map_get (buildSurahStartLines verses) (line_number (hd (words v))) = Some s \<and>
         (\<forall>l. Map_get (buildSurahStartLines verses) l = Some s \<longrightarrow>
                l = line_number (hd (words v)))"
proof
  let ?l = "line_number (hd (words v))"
  let ?m = "fold surahStartStep pre []"
  have build: "buildSurahStartLines verses = fold surahStartStep post (surahStartStep v ?m)"
    by (simp add: buildSurahStartLines_def split)
  have "Map_get (surahStartStep v ?m) ?l = Some s"
    using first by (simp add: surahStartStep_def update_conv')
  with surahStart_fold_other [OF later]
  show "Map_get (buildSurahStartLines verses) ?l = Some s"
    by (simp add: build)
  show "\<forall>l. Map_get (buildSurahStartLines verses) l = Some s \<longrightarrow> l = ?l"
  proof (intro allI impI)
    fix l assume "Map_get (buildSurahStartLines verses) l = Some s"
    then have "Map_get (fold surahStartStep verses []) l = Some s"
      by (simp add: buildSurahStartLines_def)
    from surahStart_fold_origin [OF this]
    obtain u where u: "u \<in> set verses" "verse_number u = 1" "words u \<noteq> []"
        "line_number (hd (words u)) = l" "chapter_id u = s"
      by auto
    have "u = v"
    proof (rule ccontr)
      assume "u \<noteq> v"
      with u(1) split have "u \<in> set pre \<union> set post" by auto
      with only u(2,5) show False by blast
    qed
    with u(4) show "l = ?l" by simp
  qed
qed

text \<open>
  The theorem at a page of three items: the last item of section 1, then items 1 and 2 of
  section 2, the first word of item 2:1 on line 5. Line 5 is marked with section 2, line 6
  is not.
\<close>

theorem C4_marker_witness:
  "Map_get (buildSurahStartLines
      [ex_verse_words 1 7 [ex_word 2], ex_verse_words 2 1 [ex_word 5, ex_word 6],
       ex_verse_words 2 2 [ex_word 6]]) 5 = Some 2 \<and>
   Map_get (buildSurahStartLines
      [ex_verse_words 1 7 [ex_word 2], ex_verse_words 2 1 [ex_word 5, ex_word 6],
       ex_verse_words 2 2 [ex_word 6]]) 6 \<noteq> Some 2"
proof -
  let ?v = "ex_verse_words 2 1 [ex_word 5, ex_word 6]"
  let ?vs = "[ex_verse_words 1 7 [ex_word 2], ?v, ex_verse_words 2 2 [ex_word 6]]"
  have line: "line_number (hd (words ?v)) = 5"
    by (simp add: ex_verse_words_def ex_verse_def ex_word_def Verse.extend_def)
  have "Map_get (buildSurahStartLines ?vs) (line_number (hd (words ?v))) = Some 2 \<and>
        (\<forall>l. Map_get (buildSurahStartLines ?vs) l = Some 2 \<longrightarrow> l = line_number (hd (words ?v)))"
    by (rule C4_marker_at_first_word_line
          [of ?vs "[ex_verse_words 1 7 [ex_word 2]]" ?v "[ex_verse_words 2 2 [ex_word 6]]" 2])
       (simp_all add: ex_verse_words_def ex_verse_def ex_word_def Verse.extend_def)
  then show ?thesis unfolding line by force
qed

text \<open>
  The claim as stated fails when the first items of two sections have their first words on
  one line: section 1 has exactly one item with position 1, it has a word, its first word
  is on line 5, and the marker of line 5 is section 2.
\<close>

theorem C4_marker_counterexample:
  "filter (\<lambda>u. chapter_id u = 1 \<and> verse_number u = 1)
      [ex_verse_words 1 1 [ex_word 5], ex_verse_words 2 1 [ex_word 5]] =
     [ex_verse_words 1 1 [ex_word 5]] \<and>
   words (ex_verse_words 1 1 [ex_word 5]) \<noteq> [] \<and>
   line_number (hd (words (ex_verse_words 1 1 [ex_word 5]))) = 5 \<and>
   Map_get (buildSurahStartLines
      [ex_verse_words 1 1 [ex_word 5], ex_verse_words 2 1 [ex_word 5]]) 5 = Some 2"
  by (simp add: buildSurahStartLines_def surahStartStep_def ex_verse_words_def ex_verse_def
      ex_word_def Verse.extend_def)

subsection \<open>The invocation-phrase banner\<close>

lemma fold_append_concat: "fold (\<lambda>x acc. acc @ f x) xs a = a @ concat (map f xs)"
  by (induction xs arbitrary: a) auto

lemma renderMushafPage_concat:
  "renderMushafPage container page lineMap chapters ssl =
     [MushafPage (concat (map (renderLine lineMap chapters ssl) (sort (Map_keys lineMap))) @
        [PageFooter (join ('' '' @ [CHR 0xB7] @ '' '') (map name_simple (Map_values chapters)))
           (String_int page)])]"
  by (simp add: renderMushafPage_def fold_append_concat)

lemma count_renderLine:
  "count_list (renderLine lineMap chapters ssl l) Bismillah =
     (if bannerLine chapters ssl l then 1 else 0)"
  by (auto simp add: renderLine_def bannerLine_def split: option.splits)

lemma count_concat_map:
  "(\<And>x. count_list (f x) y = (if P x then 1 else 0)) \<Longrightarrow>
   count_list (concat (map f xs)) y = length (filter P xs)"
  by (induction xs) auto

lemma keys_fold_update:
  "fst ` set (fold (\<lambda>w m. AList.update (k w) (g w m) m) ws m) = fst ` set m \<union> k ` set ws"
proof (induction ws arbitrary: m)
  case Nil
  then show ?case by simp
next
  case (Cons w ws)
  have "fst ` set (fold (\<lambda>w m. AList.update (k w) (g w m) m) (w # ws) m) =
        fst ` set (AList.update (k w) (g w m) m) \<union> k ` set ws"
    by (simp add: Cons.IH)
  also have "\<dots> = ({k w} \<union> fst ` set m) \<union> k ` set ws"
    by (simp only: dom_update)
  finally show ?case by auto
qed

lemma distinct_fold_update:
  "distinct (map fst m) \<Longrightarrow>
   distinct (map fst (fold (\<lambda>w m. AList.update (k w) (g w m) m) ws m))"
proof (induction ws arbitrary: m)
  case Nil
  then show ?case by simp
next
  case (Cons w ws)
  from Cons.prems have "distinct (map fst (AList.update (k w) (g w m) m))"
    by (rule distinct_update)
  then show ?case by (simp add: Cons.IH)
qed

lemma groupWordsByLine_addWords: "groupWordsByLine verses = fold addWords verses []"
proof -
  have "addWords = (\<lambda>verse. fold (\<lambda>word lineMap.
        Map_set (line_number word)
          ((case Map_get lineMap (line_number word) of Some ws \<Rightarrow> ws | None \<Rightarrow> []) @ [word])
          lineMap) (words verse))"
    by (simp add: fun_eq_iff addWords_def)
  then show ?thesis by (simp add: groupWordsByLine_def Let_def)
qed

lemma keys_addWords:
  "fst ` set (addWords verse m) = fst ` set m \<union> line_number ` set (words verse)"
  unfolding addWords_def by (rule keys_fold_update)

lemma distinct_addWords: "distinct (Map_keys m) \<Longrightarrow> distinct (Map_keys (addWords verse m))"
  unfolding addWords_def by (rule distinct_fold_update)

lemma keys_fold_addWords:
  "fst ` set (fold addWords verses m) =
     fst ` set m \<union> (\<Union>verse \<in> set verses. line_number ` set (words verse))"
proof (induction verses arbitrary: m)
  case Nil
  then show ?case by simp
next
  case (Cons verse verses)
  have "fst ` set (fold addWords (verse # verses) m) =
        fst ` set (addWords verse m) \<union> (\<Union>verse \<in> set verses. line_number ` set (words verse))"
    by (simp add: Cons.IH)
  also have "\<dots> = (fst ` set m \<union> line_number ` set (words verse)) \<union>
        (\<Union>verse \<in> set verses. line_number ` set (words verse))"
    by (simp only: keys_addWords)
  finally show ?case by auto
qed

lemma distinct_fold_addWords:
  "distinct (Map_keys m) \<Longrightarrow> distinct (Map_keys (fold addWords verses m))"
proof (induction verses arbitrary: m)
  case Nil
  then show ?case by simp
next
  case (Cons verse verses)
  from Cons.prems have "distinct (Map_keys (addWords verse m))" by (rule distinct_addWords)
  then show ?case by (simp add: Cons.IH)
qed

lemma keys_groupWordsByLine:
  "set (Map_keys (groupWordsByLine verses)) =
     (\<Union>verse \<in> set verses. line_number ` set (words verse))"
  using keys_fold_addWords [of verses "[]"] by (simp add: groupWordsByLine_addWords)

lemma distinct_groupWordsByLine: "distinct (Map_keys (groupWordsByLine verses))"
  using distinct_fold_addWords [of "[]" verses] by (simp add: groupWordsByLine_addWords)

lemma marker_origin:
  assumes "Map_get (buildSurahStartLines verses) l = Some s"
  shows "\<exists>u \<in> set verses. verse_number u = 1 \<and> words u \<noteq> [] \<and>
           line_number (hd (words u)) = l \<and> chapter_id u = s"
proof -
  from assms have "Map_get (fold surahStartStep verses []) l = Some s"
    by (simp only: buildSurahStartLines_def)
  from surahStart_fold_origin [OF this] show ?thesis by simp
qed

lemma marker_line_has_words:
  assumes "Map_get (buildSurahStartLines verses) l = Some s"
  shows "l \<in> set (Map_keys (groupWordsByLine verses))"
proof -
  from marker_origin [OF assms] obtain u where u: "u \<in> set verses" "words u \<noteq> []"
    "line_number (hd (words u)) = l" by auto
  from u(2) have "hd (words u) \<in> set (words u)" by simp
  then have "line_number (hd (words u)) \<in> line_number ` set (words u)" by (rule imageI)
  with u(1) have "line_number (hd (words u)) \<in>
      (\<Union>verse \<in> set verses. line_number ` set (words verse))" by (rule UN_I)
  then show ?thesis by (simp only: keys_groupWordsByLine u(3))
qed

lemma uniqueKeysD:
  assumes "uniqueKeys verses" and "u \<in> set verses" and "w \<in> set verses"
    and "chapter_id u = chapter_id w" and "verse_number u = verse_number w"
  shows "u = w"
proof -
  from assms(1) have "\<forall>u \<in> set verses. \<forall>w \<in> set verses.
      chapter_id u = chapter_id w \<and> verse_number u = verse_number w \<longrightarrow> u = w"
    by (simp only: uniqueKeys_def)
  then have "\<forall>w \<in> set verses.
      chapter_id u = chapter_id w \<and> verse_number u = verse_number w \<longrightarrow> u = w"
    using assms(2) by (rule bspec)
  then have imp: "chapter_id u = chapter_id w \<and> verse_number u = verse_number w \<longrightarrow> u = w"
    using assms(3) by (rule bspec)
  from assms(4,5) have "chapter_id u = chapter_id w \<and> verse_number u = verse_number w"
    by (rule conjI)
  with imp show ?thesis by (rule mp)
qed

lemma marker_line_unique:
  assumes "uniqueKeys verses"
    and "Map_get (buildSurahStartLines verses) l = Some s"
    and "Map_get (buildSurahStartLines verses) l' = Some s"
  shows "l' = l"
proof -
  from marker_origin [OF assms(2)] obtain u where u: "u \<in> set verses" "verse_number u = 1"
    "line_number (hd (words u)) = l" "chapter_id u = s" by auto
  from marker_origin [OF assms(3)] obtain w where w: "w \<in> set verses" "verse_number w = 1"
    "line_number (hd (words w)) = l'" "chapter_id w = s" by auto
  have "chapter_id u = chapter_id w" by (simp only: u(4) w(4))
  moreover have "verse_number u = verse_number w" by (simp only: u(2) w(2))
  ultimately have "u = w" by (rule uniqueKeysD [OF assms(1) u(1) w(1)])
  then have "line_number (hd (words u)) = line_number (hd (words w))" by (rule arg_cong)
  then show ?thesis by (simp only: u(3) w(3))
qed

lemma banner_lines_sections:
  assumes "uniqueKeys verses"
  shows "length (filter (bannerLine chapters (buildSurahStartLines verses))
            (sort (Map_keys (groupWordsByLine verses)))) =
         card (bannerSections chapters (buildSurahStartLines verses))"
proof -
  let ?ssl = "buildSurahStartLines verses"
  let ?lines = "sort (Map_keys (groupWordsByLine verses))"
  let ?A = "{l. bannerLine chapters ?ssl l} \<inter> set ?lines"
  let ?f = "\<lambda>l. the (Map_get ?ssl l)"
  have "distinct ?lines" by (simp add: distinct_groupWordsByLine)
  then have len: "length (filter (bannerLine chapters ?ssl) ?lines) = card ?A"
    by (rule distinct_length_filter)
  have inj: "inj_on ?f ?A"
  proof (rule inj_onI)
    fix l l' assume "l \<in> ?A" "l' \<in> ?A" "?f l = ?f l'"
    then obtain s where "Map_get ?ssl l = Some s" "Map_get ?ssl l' = Some s"
      by (auto simp add: bannerLine_def split: option.splits)
    with marker_line_unique [OF assms] show "l = l'" by blast
  qed
  have "?f ` ?A = bannerSections chapters ?ssl"
  proof (intro set_eqI iffI)
    fix s assume "s \<in> ?f ` ?A"
    then show "s \<in> bannerSections chapters ?ssl"
      by (auto simp add: bannerLine_def bannerSections_def split: option.splits)
  next
    fix s assume "s \<in> bannerSections chapters ?ssl"
    then obtain l where l: "Map_get ?ssl l = Some s" "s \<noteq> 1" "s \<noteq> 9" "Map_get chapters s \<noteq> None"
      by (auto simp add: bannerSections_def)
    from marker_line_has_words [OF l(1)] have "l \<in> set ?lines" by simp
    moreover from l have "bannerLine chapters ?ssl l" by (simp add: bannerLine_def)
    ultimately have "l \<in> ?A" by simp
    moreover have "?f l = s" by (simp add: l(1))
    ultimately show "s \<in> ?f ` ?A" by blast
  qed
  with card_image [OF inj] have "card (bannerSections chapters ?ssl) = card ?A" by simp
  with len show ?thesis by simp
qed

lemma fetchAndRenderPage_renders:
  assumes "getVersesByPageWithWords remote page = Inr verses"
    and "getChaptersForIds remote (Set_of (map chapter_id verses)) lang
           (s\<lparr>fetched := fetched s @ [ReqVersesByPageWithWords page]\<rparr>) = (s2, Inr chapters)"
  shows "snd (snd (fetchAndRenderPage remote container page lang s)) =
           renderMushafPage [QuranLoading ''Loading...''] page (groupWordsByLine verses) chapters
             (buildSurahStartLines verses)"
  using assms by (simp add: fetchAndRenderPage_def Let_def)

text \<open>
  C5. Let the line map and the start markers be built from the items of one page, as
  \<open>fetchAndRenderPage\<close> builds them before it calls \<open>renderMushafPage\<close>, and let no two
  items of the page share section and position (the data model's unique key). Then the
  page element holds the elements of the lines of the line map, each line once, in
  ascending order, and then the footer. A section that has a start marker has it on exactly
  one line, and that line is a line of the page. The elements of the line of section 1 or
  9 never contain the banner. The elements of the line of any other marked section whose
  metadata is in the lookup are exactly: the header with the section's Arabic name, the
  banner, the line's words. And the page holds exactly as many banners as there are
  marked sections other than 1 and 9 with metadata: one each.
\<close>

theorem C5_banner_once_per_section:
  assumes "uniqueKeys verses"
    and "lineMap = groupWordsByLine verses"
    and "ssl = buildSurahStartLines verses"
  shows "(\<exists>names. renderMushafPage container page lineMap chapters ssl =
            [MushafPage (concat (map (renderLine lineMap chapters ssl) (sort (Map_keys lineMap))) @
               [PageFooter names (String_int page)])]) \<and>
         distinct (sort (Map_keys lineMap)) \<and>
         (\<forall>l s. Map_get ssl l = Some s \<longrightarrow>
            l \<in> set (sort (Map_keys lineMap)) \<and> (\<forall>l'. Map_get ssl l' = Some s \<longrightarrow> l' = l)) \<and>
         (\<forall>l s. Map_get ssl l = Some s \<and> (s = 1 \<or> s = 9) \<longrightarrow>
            Bismillah \<notin> set (renderLine lineMap chapters ssl l)) \<and>
         (\<forall>l s ch. Map_get ssl l = Some s \<and> s \<noteq> 1 \<and> s \<noteq> 9 \<and> Map_get chapters s = Some ch \<longrightarrow>
            (\<exists>ws. renderLine lineMap chapters ssl l =
               [SurahHeader (name_arabic ch), Bismillah, MushafLine ws])) \<and>
         count_list (pageChildren (renderMushafPage container page lineMap chapters ssl)) Bismillah =
           card {s. s \<noteq> 1 \<and> s \<noteq> 9 \<and> Map_get chapters s \<noteq> None \<and> (\<exists>l. Map_get ssl l = Some s)}"
proof (intro conjI allI impI)
  show "\<exists>names. renderMushafPage container page lineMap chapters ssl =
            [MushafPage (concat (map (renderLine lineMap chapters ssl) (sort (Map_keys lineMap))) @
               [PageFooter names (String_int page)])]"
    by (simp add: renderMushafPage_concat)
  show "distinct (sort (Map_keys lineMap))"
    by (simp add: assms(2) distinct_groupWordsByLine)
next
  fix l s assume "Map_get ssl l = Some s"
  then show "l \<in> set (sort (Map_keys lineMap))"
    using marker_line_has_words [of verses l s] by (simp add: assms(2,3))
next
  fix l s l' assume "Map_get ssl l = Some s" "Map_get ssl l' = Some s"
  then show "l' = l"
    using marker_line_unique [OF assms(1), of l s l'] by (simp add: assms(3))
next
  fix l s assume "Map_get ssl l = Some s \<and> (s = 1 \<or> s = 9)"
  then show "Bismillah \<notin> set (renderLine lineMap chapters ssl l)"
    by (auto simp add: renderLine_def split: option.splits)
next
  fix l s ch
  assume "Map_get ssl l = Some s \<and> s \<noteq> 1 \<and> s \<noteq> 9 \<and> Map_get chapters s = Some ch"
  then show "\<exists>ws. renderLine lineMap chapters ssl l =
          [SurahHeader (name_arabic ch), Bismillah, MushafLine ws]"
    by (simp add: renderLine_def)
next
  have "count_list (concat (map (renderLine lineMap chapters ssl) (sort (Map_keys lineMap))))
          Bismillah = length (filter (bannerLine chapters ssl) (sort (Map_keys lineMap)))"
    by (rule count_concat_map) (rule count_renderLine)
  also have "\<dots> = card (bannerSections chapters ssl)"
    unfolding assms(2,3) by (rule banner_lines_sections [OF assms(1)])
  finally show "count_list (pageChildren (renderMushafPage container page lineMap chapters ssl))
      Bismillah =
      card {s. s \<noteq> 1 \<and> s \<noteq> 9 \<and> Map_get chapters s \<noteq> None \<and> (\<exists>l. Map_get ssl l = Some s)}"
    by (simp add: renderMushafPage_concat pageChildren_def bannerSections_def)
qed


text \<open>
  The theorem at a page of three items, 1:1 on line 1, 1:2 on line 2 and 2:1 on lines 3 and
  4: the line of section 2 is header, banner, words; the line of section 1 has no banner;
  the page has one banner.
\<close>

theorem C5_banner_witness:
  "(\<exists>ws. renderLine
           (groupWordsByLine [ex_verse_words 1 1 [ex_word 1], ex_verse_words 1 2 [ex_word 2],
              ex_verse_words 2 1 [ex_word 3, ex_word 4]])
           [(1, ex_chapter 1 ''Al-Fatihah''), (2, ex_chapter 2 ''Al-Baqarah'')]
           (buildSurahStartLines [ex_verse_words 1 1 [ex_word 1], ex_verse_words 1 2 [ex_word 2],
              ex_verse_words 2 1 [ex_word 3, ex_word 4]]) 3 =
         [SurahHeader ''Al-Baqarah'', Bismillah, MushafLine ws]) \<and>
   Bismillah \<notin> set (renderLine
           (groupWordsByLine [ex_verse_words 1 1 [ex_word 1], ex_verse_words 1 2 [ex_word 2],
              ex_verse_words 2 1 [ex_word 3, ex_word 4]])
           [(1, ex_chapter 1 ''Al-Fatihah''), (2, ex_chapter 2 ''Al-Baqarah'')]
           (buildSurahStartLines [ex_verse_words 1 1 [ex_word 1], ex_verse_words 1 2 [ex_word 2],
              ex_verse_words 2 1 [ex_word 3, ex_word 4]]) 1) \<and>
   count_list (pageChildren (renderMushafPage [] 1
           (groupWordsByLine [ex_verse_words 1 1 [ex_word 1], ex_verse_words 1 2 [ex_word 2],
              ex_verse_words 2 1 [ex_word 3, ex_word 4]])
           [(1, ex_chapter 1 ''Al-Fatihah''), (2, ex_chapter 2 ''Al-Baqarah'')]
           (buildSurahStartLines [ex_verse_words 1 1 [ex_word 1], ex_verse_words 1 2 [ex_word 2],
              ex_verse_words 2 1 [ex_word 3, ex_word 4]]))) Bismillah = 1"
proof -
  let ?vs = "[ex_verse_words 1 1 [ex_word 1], ex_verse_words 1 2 [ex_word 2],
              ex_verse_words 2 1 [ex_word 3, ex_word 4]]"
  let ?chapters = "[(1::int, ex_chapter 1 ''Al-Fatihah''), (2, ex_chapter 2 ''Al-Baqarah'')]"
  let ?lineMap = "groupWordsByLine ?vs"
  let ?ssl = "buildSurahStartLines ?vs"
  have uniq: "uniqueKeys ?vs"
    by (simp add: uniqueKeys_def ex_verse_words_def ex_verse_def Verse.extend_def)
  have ssl: "?ssl = [(1::int, 1::int), (3, 2)]"
    by (simp add: buildSurahStartLines_def surahStartStep_def ex_verse_words_def ex_verse_def
        ex_word_def Verse.extend_def)
  have m3: "Map_get ?ssl 3 = Some 2" and m1: "Map_get ?ssl 1 = Some 1"
    by (simp_all add: ssl)
  have c2: "Map_get ?chapters 2 = Some (ex_chapter 2 ''Al-Baqarah'')" by simp
  have nm: "name_arabic (ex_chapter 2 ''Al-Baqarah'') = ''Al-Baqarah''"
    by (simp add: ex_chapter_def)
  have sections: "{s. s \<noteq> 1 \<and> s \<noteq> 9 \<and> Map_get ?chapters s \<noteq> None \<and>
                    (\<exists>l. Map_get ?ssl l = Some s)} = {2}"
    unfolding ssl by (auto split: if_splits)
  note inst = C5_banner_once_per_section [OF uniq refl refl, of "[]" 1 ?chapters]
  from inst have per: "\<forall>l s ch. Map_get ?ssl l = Some s \<and> s \<noteq> 1 \<and> s \<noteq> 9 \<and>
        Map_get ?chapters s = Some ch \<longrightarrow>
        (\<exists>ws. renderLine ?lineMap ?chapters ?ssl l =
           [SurahHeader (name_arabic ch), Bismillah, MushafLine ws])"
    by (elim conjE)
  from inst have none: "\<forall>l s. Map_get ?ssl l = Some s \<and> (s = 1 \<or> s = 9) \<longrightarrow>
        Bismillah \<notin> set (renderLine ?lineMap ?chapters ?ssl l)"
    by (elim conjE)
  from inst have cnt: "count_list (pageChildren (renderMushafPage [] 1 ?lineMap ?chapters ?ssl))
        Bismillah = card {s. s \<noteq> 1 \<and> s \<noteq> 9 \<and> Map_get ?chapters s \<noteq> None \<and>
                    (\<exists>l. Map_get ?ssl l = Some s)}"
    by (elim conjE)
  from per m3 c2 have "\<exists>ws. renderLine ?lineMap ?chapters ?ssl 3 =
      [SurahHeader (name_arabic (ex_chapter 2 ''Al-Baqarah'')), Bismillah, MushafLine ws]"
    by (elim allE [of _ 3] allE [of _ 2] allE [of _ "ex_chapter 2 ''Al-Baqarah''"]) simp
  then have a: "\<exists>ws. renderLine ?lineMap ?chapters ?ssl 3 =
      [SurahHeader ''Al-Baqarah'', Bismillah, MushafLine ws]"
    by (simp only: nm)
  from none m1 have b: "Bismillah \<notin> set (renderLine ?lineMap ?chapters ?ssl 1)"
    by (elim allE [of _ 1] allE [of _ 1]) simp
  from cnt have c: "count_list (pageChildren (renderMushafPage [] 1 ?lineMap ?chapters ?ssl))
        Bismillah = 1"
    by (simp only: sections) simp
  from a b c show ?thesis by (intro conjI)
qed

subsection \<open>Failure of the page fetch\<close>

text \<open>
  C6. If the fetch of the page's items fails with message \<open>msg\<close>, then, whatever the
  container held before: while the fetch is awaited the container holds the loading block
  alone; at the end it holds exactly one error block with the text \<open>Error: msg\<close>; no page
  element was created; and the only request sent is the page's (the chapters are not
  fetched, the cache is untouched).
\<close>

theorem C6_fetch_failure_shows_one_error:
  assumes "getVersesByPageWithWords remote page = Inl msg"
  shows "fetchAndRenderPage remote container page lang s =
           (s\<lparr>fetched := fetched s @ [ReqVersesByPageWithWords page]\<rparr>,
            [QuranLoading ''Loading...''],
            [QuranError (''Error: '' @ msg)])"
  using assms by (simp add: fetchAndRenderPage_def showError_def)

text \<open>The theorem at page 2 of the example remote, with a stale page in the container.\<close>

theorem C6_fetch_failure_witness:
  "fetchAndRenderPage ex_remote [MushafPage []] 2 ''en'' \<lparr>chaptersCache = None, fetched = []\<rparr> =
     (\<lparr>chaptersCache = None, fetched = [ReqVersesByPageWithWords 2]\<rparr>,
      [QuranLoading ''Loading...''],
      [QuranError ''Error: Request failed, status 404''])"
  using C6_fetch_failure_shows_one_error [of ex_remote 2 "''Request failed, status 404''"
      "[MushafPage []]" "''en''" "\<lparr>chaptersCache = None, fetched = []\<rparr>"]
  by (simp add: ex_remote_def)

text \<open>The same holds when the page fetch succeeds and the fetch of the chapters fails.\<close>

lemma chapters_failure_shows_one_error:
  assumes "getVersesByPageWithWords remote page = Inr verses"
    and "chaptersCache s = None" and "getChapters remote lang = Inl msg"
  shows "snd (fetchAndRenderPage remote container page lang s) =
           ([QuranLoading ''Loading...''], [QuranError (''Error: '' @ msg)])"
  using assms
  by (simp add: fetchAndRenderPage_def showError_def getChaptersForIds_def
      getCachedChapters_def Let_def)

subsection \<open>The collection builder\<close>

lemma rangesLoop_fails:
  "\<exists>r \<in> set ranges. \<exists>e. fetchFails plugin remote r e \<Longrightarrow>
   \<exists>e. rangesLoop plugin remote ranges acc = Inl e \<and>
       (\<exists>r \<in> set ranges. fetchFails plugin remote r e)"
proof (induction ranges arbitrary: acc)
  case Nil
  then show ?case by simp
next
  case (Cons r rest)
  show ?case
  proof (cases "\<exists>e. fetchFails plugin remote r e")
    case True
    then show ?thesis
      by (auto simp add: fetchFails_def Let_def split: sum.splits)
  next
    case False
    with Cons.prems have "\<exists>r \<in> set rest. \<exists>e. fetchFails plugin remote r e" by auto
    from Cons.IH [OF this] False show ?thesis
      by (auto simp add: fetchFails_def Let_def split: sum.splits)
  qed
qed

text \<open>
  C7. If, for some range of a named collection, a fetch fails, then \<open>createCollection\<close>
  leaves the vault exactly as it was (no folder and no document is created, whatever was
  built of the body is dropped) and its last notice is \<open>Error creating collection: \<close>
  followed by the message of a failed fetch.
\<close>

theorem C7_fetch_failure_writes_nothing:
  assumes "collectionName \<noteq> []"
    and "\<exists>r \<in> set ranges. \<exists>e. fetchFails plugin remote r e"
  shows "\<exists>e. createCollection rt plugin remote collectionName ranges v =
               (v, ''Error creating collection: '' @ e) \<and>
             (\<exists>r \<in> set ranges. fetchFails plugin remote r e)"
proof -
  from assms(2) have "ranges \<noteq> []" by auto
  moreover from rangesLoop_fails [OF assms(2), of "([], [])"]
  obtain e where "rangesLoop plugin remote ranges ([], []) = Inl e"
    "\<exists>r \<in> set ranges. fetchFails plugin remote r e" by blast
  ultimately show ?thesis
    using assms(1) by (auto simp add: createCollection_def collectionError_def)
qed


text \<open>
  The theorem at two ranges of which the second names a section the example remote rejects:
  the items of the first range were fetched and put in the body, and the vault stays empty.
\<close>

theorem C7_fetch_failure_witness:
  "createCollection ex_runtime ex_plugin ex_remote ''Two ranges''
      [\<lparr>surah = 18, startVerse = 1, endVerse = 10, label = None\<rparr>,
       \<lparr>surah = 99, startVerse = 1, endVerse = 5, label = None\<rparr>] Map.empty =
     (Map.empty, ''Error creating collection: Request failed, status 404'')"
proof -
  let ?rs = "[\<lparr>surah = 18, startVerse = 1, endVerse = 10, label = None\<rparr>,
       \<lparr>surah = 99, startVerse = 1, endVerse = 5, label = None\<rparr>]"
  have "\<exists>r \<in> set ?rs. \<exists>e. fetchFails ex_plugin ex_remote r e"
    by (simp add: fetchFails_def ex_remote_def)
  from C7_fetch_failure_writes_nothing [OF _ this, of "''Two ranges''" ex_runtime Map.empty]
  obtain e where e: "createCollection ex_runtime ex_plugin ex_remote ''Two ranges'' ?rs Map.empty =
               (Map.empty, ''Error creating collection: '' @ e)"
    "\<exists>r \<in> set ?rs. fetchFails ex_plugin ex_remote r e" by auto
  from e(2) have "e = ''Request failed, status 404''"
    by (auto simp add: fetchFails_def ex_remote_def split: if_splits)
  with e(1) show ?thesis by simp
qed

lemma fold_verseStep_body:
  "snd (fold verseStep vs acc) = snd acc @ concat (map verseBlock vs)"
  by (induction vs arbitrary: acc) (auto simp add: verseStep_def split: prod.splits)

lemma createCollection_creates:
  assumes "collectionName \<noteq> []" "ranges \<noteq> []"
    and "rangesLoop plugin remote ranges ([], []) = Inr (allPages, body)"
    and "v (collectionPath plugin collectionName) = None"
    and "normalizePath plugin ''Quran/Collections'' \<noteq> collectionPath plugin collectionName"
  shows "fst (createCollection rt plugin remote collectionName ranges v)
           (collectionPath plugin collectionName) =
         Some (TFile (collectionContent rt collectionName ranges (sort allPages) body))"
  using assms
  by (auto simp add: createCollection_def getAbstractFileByPath_def vault_create_def
      vault_createFolder_def Let_def)



subsection \<open>Overlapping ranges\<close>

lemma padNumber_18: "padNumber 18 3 = ''018''"
  by (simp add: padNumber_def padStart_def String_int_examples eval_nat_numeral)

lemma verseBlock_text:
  "verseBlock =
     (\<lambda>u. ''### '' @ verse_key u @ ''\<newline>\<newline>'' @
          ''> '' @ (case Verse.text_uthmani u of Some t \<Rightarrow> t | None \<Rightarrow> []) @ ''\<newline>\<newline>'' @
          (case translations_Verse u of
             Some (t # ts) \<Rightarrow> text_Translation t @ ''\<newline>\<newline>''
           | _ \<Rightarrow> []) @
          ''---\<newline>\<newline>'')"
proof (rule ext)
  fix u
  have "(case firstTranslation u of
           Some t \<Rightarrow> stripHtml (text_Translation t) @ ''\<newline>\<newline>''
         | None \<Rightarrow> []) =
        (case translations_Verse u of
           Some (t # ts) \<Rightarrow> text_Translation t @ ''\<newline>\<newline>''
         | _ \<Rightarrow> [])"
    by (simp add: firstTranslation_def stripHtml_id split: option.split list.split)
  then show "verseBlock u =
     ''### '' @ verse_key u @ ''\<newline>\<newline>'' @
          ''> '' @ (case Verse.text_uthmani u of Some t \<Rightarrow> t | None \<Rightarrow> []) @ ''\<newline>\<newline>'' @
          (case translations_Verse u of
             Some (t # ts) \<Rightarrow> text_Translation t @ ''\<newline>\<newline>''
           | _ \<Rightarrow> []) @
          ''---\<newline>\<newline>''"
    by (simp only: verseBlock_def)
qed

lemma rangeHeader_18:
  "rangeHeader ch \<lparr>surah = 18, startVerse = 1, endVerse = 10, label = None\<rparr> =
     ''\<newline>## '' @ name_simple ch @ '' ('' @ ''18:1-10'' @ '')\<newline>'' @
     ''**Link:** [[018 - '' @ name_simple ch @ '']]\<newline>\<newline>''"
  "rangeHeader ch \<lparr>surah = 18, startVerse = 5, endVerse = 15, label = None\<rparr> =
     ''\<newline>## '' @ name_simple ch @ '' ('' @ ''18:5-15'' @ '')\<newline>'' @
     ''**Link:** [[018 - '' @ name_simple ch @ '']]\<newline>\<newline>''"
  by (simp_all add: rangeHeader_def rangeLabel_def String_int_small String_int_examples padNumber_18)

lemma collectionContent_around_body:
  "\<exists>front. collectionContent rt collectionName ranges sortedPages body =
     front @ ''# '' @ collectionName @ ''\<newline>'' @ ''\<newline>'' @ body @
     ''\<newline>'' @ ''## Progress\<newline>'' @ ''\<newline>'' @ ''- [ ] Started\<newline>'' @
     ''- [ ] Completed\<newline>'' @ ''- [ ] Memorized\<newline>'' @ ''\<newline>'' @ ''## Notes\<newline>'' @ ''\<newline>''"
proof -
  let ?front = "''---\<newline>'' @
     ''type: collection\<newline>'' @
     ''name: '' @ dquote @ collectionName @ dquote @ ''\<newline>'' @
     ''created: '' @ today rt @ ''\<newline>'' @
     ''ranges: '' @ JSON_stringify rt ranges @ ''\<newline>'' @
     ''pages: ['' @ join '', '' (map String_int sortedPages) @ '']\<newline>'' @
     ''status: '' @ dquote @ ''not_started'' @ dquote @ ''\<newline>'' @
     ''tags: [quran, collection, custom]\<newline>'' @
     ''---\<newline>'' @
     ''\<newline>''"
  have "collectionContent rt collectionName ranges sortedPages body =
     ?front @ ''# '' @ collectionName @ ''\<newline>'' @ ''\<newline>'' @ body @
     ''\<newline>'' @ ''## Progress\<newline>'' @ ''\<newline>'' @ ''- [ ] Started\<newline>'' @
     ''- [ ] Completed\<newline>'' @ ''- [ ] Memorized\<newline>'' @ ''\<newline>'' @ ''## Notes\<newline>'' @ ''\<newline>''"
    by (simp only: collectionContent_def append_assoc)
  then show ?thesis by (rule exI [of _ ?front])
qed

lemma concat_map_split:
  assumes "u \<in> set xs"
  shows "\<exists>a b. concat (map f xs) = a @ f u @ b"
proof -
  from assms obtain ys zs where "xs = ys @ u # zs" by (auto dest: split_list)
  then have "concat (map f xs) = concat (map f ys) @ f u @ concat (map f zs)" by simp
  then show ?thesis by blast
qed

lemma rangesLoop_two_ranges:
  assumes "getChapter remote (surah r1) (language (settings plugin)) = Inr ch1"
    and "getVersesByChapter remote (surah r1) (chapterVersesOptions plugin) = Inr vs1"
    and "getChapter remote (surah r2) (language (settings plugin)) = Inr ch2"
    and "getVersesByChapter remote (surah r2) (chapterVersesOptions plugin) = Inr vs2"
  shows "\<exists>allPages. rangesLoop plugin remote [r1, r2] ([], []) =
           Inr (allPages,
                rangeHeader ch1 r1 @ concat (map verseBlock (filter (inVerseRange r1) vs1)) @
                rangeHeader ch2 r2 @ concat (map verseBlock (filter (inVerseRange r2) vs2)))"
proof -
  let ?a1 = "fold verseStep (filter (inVerseRange r1) vs1) ([], rangeHeader ch1 r1)"
  let ?a2 = "fold verseStep (filter (inVerseRange r2) vs2) (fst ?a1, snd ?a1 @ rangeHeader ch2 r2)"
  have "rangesLoop plugin remote [r1, r2] ([], []) = Inr ?a2"
    using assms by (simp add: Let_def)
  moreover have "snd ?a2 =
      rangeHeader ch1 r1 @ concat (map verseBlock (filter (inVerseRange r1) vs1)) @
      rangeHeader ch2 r2 @ concat (map verseBlock (filter (inVerseRange r2) vs2))"
    by (simp only: fold_verseStep_body snd_conv append_assoc)
  ultimately show ?thesis by (metis prod.collapse)
qed

text \<open>
  C9. Take the ranges 1 to 10 and 5 to 15 of section 18, in that order, for a named
  collection whose path is free, and let the fetches for section 18 succeed with the list
  \<open>vs\<close>. Write \<open>heading\<close> for the text of a range's sub-heading, \<open>block\<close> for the text of
  an item's block (the key after \<open>###\<close>, the quoted text, the translation text if there is
  one, a rule) and \<open>tail\<close> for the lines after the body. Then the document written at the
  collection's path is some front matter, the title, the sub-heading \<open>18:1-10\<close>, the blocks
  of the items of \<open>vs\<close> with positions 1 to 10, the sub-heading \<open>18:5-15\<close>, the blocks of
  the items of \<open>vs\<close> with positions 5 to 15, and the tail. So for every item of \<open>vs\<close> with
  a position from 5 to 10 the document holds the item's block twice, once after each
  sub-heading: nothing is merged or removed.
\<close>

theorem C9_overlapping_ranges:
  assumes name: "collectionName \<noteq> []"
    and ch: "getChapter remote 18 (language (settings plugin)) = Inr ch"
    and vs: "getVersesByChapter remote 18 (chapterVersesOptions plugin) = Inr vs"
    and free: "v (collectionPath plugin collectionName) = None"
    and folder: "normalizePath plugin ''Quran/Collections'' \<noteq> collectionPath plugin collectionName"
    and ranges: "ranges = [\<lparr>surah = 18, startVerse = 1, endVerse = 10, label = None\<rparr>,
                          \<lparr>surah = 18, startVerse = 5, endVerse = 15, label = None\<rparr>]"
    and heading: "heading = (\<lambda>lbl. ''\<newline>## '' @ name_simple ch @ '' ('' @ lbl @ '')\<newline>'' @
                     ''**Link:** [[018 - '' @ name_simple ch @ '']]\<newline>\<newline>'')"
    and block: "block = (\<lambda>u. ''### '' @ verse_key u @ ''\<newline>\<newline>'' @
                   ''> '' @ (case Verse.text_uthmani u of Some t \<Rightarrow> t | None \<Rightarrow> []) @
                   ''\<newline>\<newline>'' @
                   (case translations_Verse u of
                      Some (t # ts) \<Rightarrow> text_Translation t @ ''\<newline>\<newline>''
                    | _ \<Rightarrow> []) @
                   ''---\<newline>\<newline>'')"
    and tail: "tail = ''\<newline>'' @ ''## Progress\<newline>'' @ ''\<newline>'' @ ''- [ ] Started\<newline>'' @ ''- [ ] Completed\<newline>'' @ ''- [ ] Memorized\<newline>'' @ ''\<newline>'' @ ''## Notes\<newline>'' @ ''\<newline>''"
  shows "(\<exists>front.
            fst (createCollection rt plugin remote collectionName ranges v)
              (collectionPath plugin collectionName) =
            Some (TFile (front @ ''# '' @ collectionName @ ''\<newline>'' @ ''\<newline>'' @
              heading ''18:1-10'' @
              concat (map block (filter (\<lambda>u. 1 \<le> verse_number u \<and> verse_number u \<le> 10) vs)) @
              heading ''18:5-15'' @
              concat (map block (filter (\<lambda>u. 5 \<le> verse_number u \<and> verse_number u \<le> 15) vs)) @
              tail))) \<and>
         (\<forall>u \<in> set vs. 5 \<le> verse_number u \<and> verse_number u \<le> 10 \<longrightarrow>
            (\<exists>front a b c d.
               fst (createCollection rt plugin remote collectionName ranges v)
                 (collectionPath plugin collectionName) =
               Some (TFile (front @ ''# '' @ collectionName @ ''\<newline>'' @ ''\<newline>'' @
                 heading ''18:1-10'' @ a @ block u @ b @
                 heading ''18:5-15'' @ c @ block u @ d @
                 tail))))"
proof -
  let ?r1 = "\<lparr>surah = 18, startVerse = 1, endVerse = 10, label = None\<rparr>"
  let ?r2 = "\<lparr>surah = 18, startVerse = 5, endVerse = 15, label = None\<rparr>"
  let ?f1 = "\<lambda>u. 1 \<le> verse_number u \<and> verse_number u \<le> 10"
  let ?f2 = "\<lambda>u. 5 \<le> verse_number u \<and> verse_number u \<le> 15"
  let ?path = "collectionPath plugin collectionName"
  have f1: "inVerseRange ?r1 = ?f1"
    by (auto simp add: inVerseRange_def maxVerse_def fun_eq_iff)
  have f2: "inVerseRange ?r2 = ?f2"
    by (auto simp add: inVerseRange_def maxVerse_def fun_eq_iff)
  have blk: "verseBlock = block" by (simp only: block verseBlock_text)
  have h1: "rangeHeader ch ?r1 = heading ''18:1-10''"
    by (simp only: heading rangeHeader_18)
  have h2: "rangeHeader ch ?r2 = heading ''18:5-15''"
    by (simp only: heading rangeHeader_18)
  let ?body = "heading ''18:1-10'' @ concat (map block (filter ?f1 vs)) @
               heading ''18:5-15'' @ concat (map block (filter ?f2 vs))"
  from rangesLoop_two_ranges [of remote ?r1 plugin ch vs ?r2 ch vs] ch vs
  obtain allPages where "rangesLoop plugin remote [?r1, ?r2] ([], []) =
      Inr (allPages,
           rangeHeader ch ?r1 @ concat (map verseBlock (filter (inVerseRange ?r1) vs)) @
           rangeHeader ch ?r2 @ concat (map verseBlock (filter (inVerseRange ?r2) vs)))"
    by auto
  then have loop: "rangesLoop plugin remote ranges ([], []) = Inr (allPages, ?body)"
    by (simp only: f1 f2 blk h1 h2 ranges)
  have "ranges \<noteq> []" by (simp add: ranges)
  from createCollection_creates [where rt = rt and v = v, OF name this loop free folder]
  have written: "fst (createCollection rt plugin remote collectionName ranges v) ?path =
      Some (TFile (collectionContent rt collectionName ranges (sort allPages) ?body))" .
  obtain front where front:
    "collectionContent rt collectionName ranges (sort allPages) ?body =
       front @ ''# '' @ collectionName @ ''\<newline>'' @ ''\<newline>'' @ ?body @ tail"
    using collectionContent_around_body [of rt collectionName ranges "sort allPages" ?body]
    unfolding tail by (elim exE)
  have whole: "fst (createCollection rt plugin remote collectionName ranges v) ?path =
      Some (TFile (front @ ''# '' @ collectionName @ ''\<newline>'' @ ''\<newline>'' @
        heading ''18:1-10'' @ concat (map block (filter ?f1 vs)) @
        heading ''18:5-15'' @ concat (map block (filter ?f2 vs)) @ tail))"
    by (simp only: written front append_assoc)
  show ?thesis
  proof (intro conjI ballI impI)
    from whole show "\<exists>front.
        fst (createCollection rt plugin remote collectionName ranges v) ?path =
        Some (TFile (front @ ''# '' @ collectionName @ ''\<newline>'' @ ''\<newline>'' @
          heading ''18:1-10'' @ concat (map block (filter ?f1 vs)) @
          heading ''18:5-15'' @ concat (map block (filter ?f2 vs)) @ tail))"
      by (rule exI [of _ front])
  next
    fix u assume u: "u \<in> set vs" "5 \<le> verse_number u \<and> verse_number u \<le> 10"
    then have "u \<in> set (filter ?f1 vs)" "u \<in> set (filter ?f2 vs)" by simp_all
    then obtain a b c d where
      ab: "concat (map block (filter ?f1 vs)) = a @ block u @ b" and
      cd: "concat (map block (filter ?f2 vs)) = c @ block u @ d"
      using concat_map_split [of u "filter ?f1 vs" block]
        concat_map_split [of u "filter ?f2 vs" block] by blast
    have "fst (createCollection rt plugin remote collectionName ranges v) ?path =
        Some (TFile (front @ ''# '' @ collectionName @ ''\<newline>'' @ ''\<newline>'' @
          heading ''18:1-10'' @ a @ block u @ b @
          heading ''18:5-15'' @ c @ block u @ d @ tail))"
      by (simp only: whole ab cd append_assoc)
    then show "\<exists>front a b c d.
        fst (createCollection rt plugin remote collectionName ranges v) ?path =
        Some (TFile (front @ ''# '' @ collectionName @ ''\<newline>'' @ ''\<newline>'' @
          heading ''18:1-10'' @ a @ block u @ b @
          heading ''18:5-15'' @ c @ block u @ d @ tail))"
      by (intro exI [of _ front] exI [of _ a] exI [of _ b] exI [of _ c] exI [of _ d])
  qed
qed


text \<open>
  The theorem at the example remote, whose list for section 18 holds items 1 to 12, and at
  item 7: its block stands in the document after the first sub-heading and again after
  the second.
\<close>

theorem C9_overlapping_witness:
  "\<exists>front a b c d.
     fst (createCollection ex_runtime ex_plugin ex_remote ''Friday''
            [\<lparr>surah = 18, startVerse = 1, endVerse = 10, label = None\<rparr>,
             \<lparr>surah = 18, startVerse = 5, endVerse = 15, label = None\<rparr>] Map.empty)
       ''Quran/Collections/Friday.md'' =
     Some (TFile (front @ ''# '' @ ''Friday'' @ ''\<newline>'' @ ''\<newline>'' @
       (''\<newline>## '' @ ''Al-Kahf'' @ '' ('' @ ''18:1-10'' @ '')\<newline>'' @
        ''**Link:** [[018 - '' @ ''Al-Kahf'' @ '']]\<newline>\<newline>'') @
       a @ (''### '' @ ''18:7'' @ ''\<newline>\<newline>'' @ ''> '' @ ''x'' @ ''\<newline>\<newline>'' @ [] @
            ''---\<newline>\<newline>'') @ b @
       (''\<newline>## '' @ ''Al-Kahf'' @ '' ('' @ ''18:5-15'' @ '')\<newline>'' @
        ''**Link:** [[018 - '' @ ''Al-Kahf'' @ '']]\<newline>\<newline>'') @
       c @ (''### '' @ ''18:7'' @ ''\<newline>\<newline>'' @ ''> '' @ ''x'' @ ''\<newline>\<newline>'' @ [] @
            ''---\<newline>\<newline>'') @ d @
       (''\<newline>'' @ ''## Progress\<newline>'' @ ''\<newline>'' @ ''- [ ] Started\<newline>'' @
        ''- [ ] Completed\<newline>'' @ ''- [ ] Memorized\<newline>'' @ ''\<newline>'' @
        ''## Notes\<newline>'' @ ''\<newline>'')))"
proof -
  let ?vs = "map (\<lambda>n. ex_verse 18 n 293) [1, 2, 3, 4, 5, 6, 7, 8, 9, 10, 11, 12]"
  let ?u = "ex_verse 18 7 293"
  let ?ranges = "[\<lparr>surah = 18, startVerse = 1, endVerse = 10, label = None\<rparr>,
             \<lparr>surah = 18, startVerse = 5, endVerse = 15, label = None\<rparr>]"
  have path: "collectionPath ex_plugin ''Friday'' = ''Quran/Collections/Friday.md''"
    by (simp add: collectionPath_def safeName_def safeChar_def ex_plugin_def)
  have name: "''Friday'' \<noteq> []" by simp
  have ch: "getChapter ex_remote 18 (language (settings ex_plugin)) = Inr (ex_chapter 18 ''Al-Kahf'')"
    by (simp add: ex_remote_def)
  have vs: "getVersesByChapter ex_remote 18 (chapterVersesOptions ex_plugin) = Inr ?vs"
    by (simp add: ex_remote_def)
  have free: "Map.empty (collectionPath ex_plugin ''Friday'') = None" by simp
  have folder: "normalizePath ex_plugin ''Quran/Collections'' \<noteq> collectionPath ex_plugin ''Friday''"
    by (simp add: path) (simp add: ex_plugin_def)
  have u: "?u \<in> set ?vs" by simp
  have pos: "5 \<le> verse_number ?u \<and> verse_number ?u \<le> 10" by (simp add: ex_verse_def)
  have nm: "name_simple (ex_chapter 18 ''Al-Kahf'') = ''Al-Kahf''" by (simp add: ex_chapter_def)
  have key: "verse_key ?u = ''18:7''"
    by (simp add: ex_verse_def String_int_def String_nat.simps)
  have quoted: "(case Verse.text_uthmani ?u of Some t \<Rightarrow> t | None \<Rightarrow> []) = ''x''"
    by (simp add: ex_verse_def)
  have tr: "(case translations_Verse ?u of
               Some (t # ts) \<Rightarrow> text_Translation t @ ''\<newline>\<newline>''
             | _ \<Rightarrow> []) = []"
    by (simp add: ex_verse_def)
  note inst = C9_overlapping_ranges
    [where rt = ex_runtime and v = Map.empty and ranges = ?ranges,
     OF name ch vs free folder refl refl refl refl]
  from inst have "\<forall>u \<in> set ?vs. 5 \<le> verse_number u \<and> verse_number u \<le> 10 \<longrightarrow>
      (\<exists>front a b c d.
         fst (createCollection ex_runtime ex_plugin ex_remote ''Friday'' ?ranges Map.empty)
           (collectionPath ex_plugin ''Friday'') =
         Some (TFile (front @ ''# '' @ ''Friday'' @ ''\<newline>'' @ ''\<newline>'' @
           (''\<newline>## '' @ name_simple (ex_chapter 18 ''Al-Kahf'') @ '' ('' @ ''18:1-10'' @ '')\<newline>'' @
            ''**Link:** [[018 - '' @ name_simple (ex_chapter 18 ''Al-Kahf'') @ '']]\<newline>\<newline>'') @
           a @ (''### '' @ verse_key u @ ''\<newline>\<newline>'' @
                   ''> '' @ (case Verse.text_uthmani u of Some t \<Rightarrow> t | None \<Rightarrow> []) @
                   ''\<newline>\<newline>'' @
                   (case translations_Verse u of
                      Some (t # ts) \<Rightarrow> text_Translation t @ ''\<newline>\<newline>''
                    | _ \<Rightarrow> []) @
                   ''---\<newline>\<newline>'') @ b @
           (''\<newline>## '' @ name_simple (ex_chapter 18 ''Al-Kahf'') @ '' ('' @ ''18:5-15'' @ '')\<newline>'' @
            ''**Link:** [[018 - '' @ name_simple (ex_chapter 18 ''Al-Kahf'') @ '']]\<newline>\<newline>'') @
           c @ (''### '' @ verse_key u @ ''\<newline>\<newline>'' @
                   ''> '' @ (case Verse.text_uthmani u of Some t \<Rightarrow> t | None \<Rightarrow> []) @
                   ''\<newline>\<newline>'' @
                   (case translations_Verse u of
                      Some (t # ts) \<Rightarrow> text_Translation t @ ''\<newline>\<newline>''
                    | _ \<Rightarrow> []) @
                   ''---\<newline>\<newline>'') @ d @
           (''\<newline>'' @ ''## Progress\<newline>'' @ ''\<newline>'' @ ''- [ ] Started\<newline>'' @
            ''- [ ] Completed\<newline>'' @ ''- [ ] Memorized\<newline>'' @ ''\<newline>'' @
            ''## Notes\<newline>'' @ ''\<newline>''))))"
    by (rule conjunct2)
  from bspec [OF this u] pos show ?thesis
    unfolding nm key quoted tr path by (rule mp)
qed

subsection \<open>The session cache\<close>

lemma getCachedChapters_populated:
  "chaptersCache s = Some cs \<Longrightarrow> getCachedChapters remote lang s = (s, Inr cs)"
  by (simp add: getCachedChapters_def)

text \<open>
  C10. Start from an empty cache and let the fetch for language \<open>l1\<close> succeed with the
  list \<open>cs\<close>. Then \<open>getCachedChapters l1\<close> returns \<open>cs\<close>, stores it and sends one request;
  after it, for every language \<open>l2\<close>, \<open>getCachedChapters l2\<close> returns \<open>cs\<close> and leaves the
  session as it is (no request is sent); after \<open>clearChaptersCache\<close>, \<open>getCachedChapters l2\<close>
  sends the request for \<open>l2\<close> and returns its answer.
\<close>

theorem C10_cache_ignores_language:
  assumes "chaptersCache s = None" and "getChapters remote l1 = Inr cs"
  shows "case getCachedChapters remote l1 s of (s1, r1) \<Rightarrow>
           r1 = Inr cs \<and> chaptersCache s1 = Some cs \<and>
           fetched s1 = fetched s @ [ReqChapters l1] \<and>
           getCachedChapters remote l2 s1 = (s1, Inr cs) \<and>
           fetched (fst (getCachedChapters remote l2 (clearChaptersCache s1))) =
             fetched s1 @ [ReqChapters l2] \<and>
           snd (getCachedChapters remote l2 (clearChaptersCache s1)) = getChapters remote l2"
  using assms
  by (auto simp add: getCachedChapters_def clearChaptersCache_def Let_def split: sum.splits)

text \<open>
  The theorem at the example remote, whose chapter lists for \<open>en\<close> and \<open>ar\<close> differ: the
  call for \<open>ar\<close> after the call for \<open>en\<close> returns the list of \<open>en\<close>, and the log holds the
  request for \<open>en\<close> only.
\<close>

theorem C10_cache_witness:
  "getCachedChapters ex_remote ''ar''
     (fst (getCachedChapters ex_remote ''en'' \<lparr>chaptersCache = None, fetched = []\<rparr>)) =
   (\<lparr>chaptersCache = Some [ex_chapter 1 ''Al-Fatihah'', ex_chapter 2 ''Al-Baqarah''],
     fetched = [ReqChapters ''en'']\<rparr>,
    Inr [ex_chapter 1 ''Al-Fatihah'', ex_chapter 2 ''Al-Baqarah''])"
  using C10_cache_ignores_language [of "\<lparr>chaptersCache = None, fetched = []\<rparr>" ex_remote
      "''en''" "[ex_chapter 1 ''Al-Fatihah'', ex_chapter 2 ''Al-Baqarah'']" "''ar''"]
  by (simp add: ex_remote_def split: prod.splits)

end
